theory Spec2Isabelle
  imports Complex_Main
begin

section \<open>Data model of \<^verbatim>\<open>pycolleff/process_wakes.py\<close>\<close>

text \<open>
  The module works on numpy arrays of 64-bit floats. Arrays are modelled as lists and
  floats as real numbers: rounding, overflow and underflow are outside the model. Where
  numpy divides by zero it returns \<open>inf\<close> or \<open>nan\<close> with a warning (it does not raise);
  where plain Python floats are divided by zero, Python raises \<open>ZeroDivisionError\<close>.
  The second is a branch of the model. The first is written out where it decides which
  elements an array keeps (the time step of \<open>calc_impedance\<close>); elsewhere a quotient by
  zero in the model stands for that non-finite float, and no theorem below depends on
  its value.

  Exceptions are values of the type \<open>error\<close>. \<open>DataConsistencyError\<close> is the error
  class named by the specification; no line of the module raises it.
\<close>

datatype error =
    IndexError
  | ValueError
  | ZeroDivisionError
  | AttributeError
  | NameError
  | UnboundLocalError
  | OSError
  | DataConsistencyError

type_synonym array = "real list"

record Ringpar =
  circumf :: real
  omega0 :: real
  sigma :: real
  sigmamax :: real
  Iavg :: real
  h :: int

text \<open>
  \<open>Simpar\<close> has exactly the attributes its constructor sets; there is no attribute
  \<open>sigma\<close> on it. \<open>sym\<close> is the integer flag \<open>prepare_struct_for_load\<close> stores.
\<close>

record Simpar =
  wakepath :: string
  targetdir :: string
  datasource :: string
  m :: int
  offset :: real
  sym :: int
  whichaxis :: string
  units :: int
  bunlen :: real
  cutoff :: real

text \<open>
  The fields of \<open>Results\<close> that the modelled functions read or write. The scalar results
  start as empty arrays and are overwritten by a float: \<open>None\<close> is the empty array.
\<close>

record Results =
  s :: array
  W :: array
  freq :: array
  naxis :: array
  ReZlong :: array
  ImZlong :: array
  ImZoN :: array
  ImZt :: array
  ReZt :: array
  klossW :: "real option"
  klossZ :: array
  kickW :: "real option"
  kickZ :: array
  sigmak :: array
  Ploss :: "real option"
  Plossvec :: array

record GlobData =
  ringpar :: Ringpar
  simpar :: Simpar
  results :: Results

definition c_light :: real where
  "c_light = 299792458"

section \<open>The numpy operations the module calls\<close>

definition bindE :: "error + 'a \<Rightarrow> ('a \<Rightarrow> error + 'b) \<Rightarrow> error + 'b" where
  "bindE x f = (case x of Inl e \<Rightarrow> Inl e | Inr v \<Rightarrow> f v)"

text \<open>A \<open>for\<close> loop filling an array: the first failing iteration raises.\<close>

fun mapE :: "('a \<Rightarrow> error + 'b) \<Rightarrow> 'a list \<Rightarrow> error + 'b list" where
  "mapE f [] = Inr []"
| "mapE f (x # xs) =
     (case f x of
        Inl e \<Rightarrow> Inl e
      | Inr y \<Rightarrow> (case mapE f xs of Inl e \<Rightarrow> Inl e | Inr ys \<Rightarrow> Inr (y # ys)))"

text \<open>
  An elementwise binary operation on two one-dimensional arrays, with numpy's
  broadcasting: equal lengths, or one operand of length 1 that is stretched; any other
  pair of lengths raises \<open>ValueError\<close>.
\<close>

definition bcast2 :: "(real \<Rightarrow> real \<Rightarrow> real) \<Rightarrow> array \<Rightarrow> array \<Rightarrow> error + array" where
  "bcast2 f xs ys =
     (if length xs = length ys then Inr (map2 f xs ys)
      else if length xs = 1 then Inr (map (f (hd xs)) ys)
      else if length ys = 1 then Inr (map (\<lambda>x. f x (hd ys)) xs)
      else Inl ValueError)"

text \<open>\<open>numpy.diff\<close> of a one-dimensional array: \<open>a[1:] - a[:-1]\<close>.\<close>

definition diff :: "array \<Rightarrow> array" where
  "diff a = map2 (\<lambda>u v. u - v) (tl a) (butlast a)"

text \<open>
  \<open>numpy.trapz(y, x=x)\<close>: \<open>(d * (y[1:] + y[:-1]) / 2.0).sum()\<close> with \<open>d = diff(x)\<close>;
  the product broadcasts.
\<close>

definition trapz :: "array \<Rightarrow> array \<Rightarrow> error + real" where
  "trapz y x =
     bindE (bcast2 (\<lambda>u v. u * v) (diff x) (map2 (\<lambda>u v. u + v) (tl y) (butlast y)))
       (\<lambda>p. Inr (sum_list (map (\<lambda>v. v / 2) p)))"

text \<open>
  \<open>numpy.linspace(start, stop, num)\<close> with the default \<open>endpoint=True\<close>:
  \<open>arange(0, num) * step + start\<close> with \<open>step = (stop - start) / (num - 1)\<close>, and the
  last element overwritten by \<open>stop\<close> when \<open>num > 1\<close>.
\<close>

definition linspace :: "real \<Rightarrow> real \<Rightarrow> nat \<Rightarrow> array" where
  "linspace start stop num =
     (let y = map (\<lambda>i. real i * ((stop - start) / real (num - 1)) + start) [0..<num]
      in if num > 1 then y[num - 1 := stop] else y)"

section \<open>Loading a wake\<close>

text \<open>
  A wake file is a list of lines; a line is text or a row of numbers. The file system
  maps a path to the file stored there. \<open>load_wake\<close> also copies each file it read into
  the target directory when the wake directory does not start with it, so the file
  system is a state that \<open>load_wake\<close> takes and returns.

  Where \<open>shutil.copy2(src, dst)\<close> writes depends on the directories of the file system:
  into \<open>dst\<close> under the name of \<open>src\<close> when \<open>dst\<close> is a directory, to the path \<open>dst\<close>
  otherwise; it raises an \<open>OSError\<close> (\<open>FileNotFoundError\<close>, \<open>PermissionError\<close>,
  \<open>SameFileError\<close>) when it cannot write there. \<open>copy_target src dst\<close> is the path
  written, and \<open>None\<close> when the copy raises. Paths are compared as strings.
\<close>

datatype line = Text string | Row "real list"

type_synonym wakefile = "line list"

record filesystem =
  files :: "string \<Rightarrow> wakefile option"
  copy_target :: "string \<Rightarrow> string \<Rightarrow> string option"

definition copy2 :: "filesystem \<Rightarrow> string \<Rightarrow> string \<Rightarrow> error + filesystem" where
  "copy2 fs src dst =
     (case files fs src of
        None \<Rightarrow> Inl OSError
      | Some f \<Rightarrow>
          (case copy_target fs src dst of
             None \<Rightarrow> Inl OSError
           | Some tgt \<Rightarrow> Inr (fs\<lparr>files := (files fs)(tgt \<mapsto> f)\<rparr>)))"

text \<open>\<open>if cpfile: shutil.copy2(src, tardir)\<close>.\<close>

definition copy_if :: "bool \<Rightarrow> filesystem \<Rightarrow> string \<Rightarrow> string \<Rightarrow> error + filesystem" where
  "copy_if cpfile fs src dst = (if cpfile then copy2 fs src dst else Inr fs)"

fun is_Text :: "line \<Rightarrow> bool" where
  "is_Text (Text t) = True"
| "is_Text (Row r) = False"

fun row_of :: "line \<Rightarrow> real list" where
  "row_of (Text t) = []"
| "row_of (Row r) = r"

text \<open>
  \<open>numpy.loadtxt(path, skiprows=n)\<close>: a missing file raises \<open>OSError\<close>; after the skipped
  lines a line of text (one that is neither a comment nor blank) or a row with another
  number of columns raises \<open>ValueError\<close>; blank lines are skipped.
\<close>

definition loadtxt :: "filesystem \<Rightarrow> string \<Rightarrow> nat \<Rightarrow> error + real list list" where
  "loadtxt fs path skiprows =
     (case files fs path of
        None \<Rightarrow> Inl OSError
      | Some f \<Rightarrow>
          let body = drop skiprows f
          in if list_ex is_Text body then Inl ValueError
             else
               let rows = filter (\<lambda>r. r \<noteq> []) (map row_of body)
               in if list_all (\<lambda>r. length r = length (hd rows)) rows then Inr rows
                  else Inl ValueError)"

text \<open>
  \<open>a[:,j]\<close> on the result of \<open>loadtxt\<close>, which squeezes a table of fewer than two rows or
  fewer than two columns to fewer than two dimensions: indexing it with two indices
  raises \<open>IndexError\<close>.
\<close>

definition column :: "real list list \<Rightarrow> nat \<Rightarrow> error + array" where
  "column a j =
     (if length a < 2 \<or> length (hd a) < 2 then Inl IndexError
      else if j < length (hd a) then Inr (map (\<lambda>r. r ! j) a)
      else Inl IndexError)"

text \<open>\<open>open(path)\<close> followed by three calls of \<open>readline\<close>: the third line, if any.\<close>

definition third_line :: "filesystem \<Rightarrow> string \<Rightarrow> error + line option" where
  "third_line fs path =
     (case files fs path of
        None \<Rightarrow> Inl OSError
      | Some f \<Rightarrow> Inr (if 3 \<le> length f then Some (f ! 2) else None))"

text \<open>
  The module calls \<open>textscan\<close> three times and neither defines nor imports it:
  evaluating the name raises \<open>NameError\<close>.
\<close>

definition textscan :: "line option \<Rightarrow> string \<Rightarrow> error + real list" where
  "textscan l fmt = Inl NameError"

text \<open>\<open>coord[i]\<close> on what \<open>textscan\<close> would return.\<close>

definition index :: "real list \<Rightarrow> nat \<Rightarrow> error + real" where
  "index a i = (if i < length a then Inr (a ! i) else Inl IndexError)"

definition startswith :: "string \<Rightarrow> string \<Rightarrow> bool" where
  "startswith str p \<longleftrightarrow> take (length p) str = p"

text \<open>\<open>str.upper\<close> on ASCII letters.\<close>

definition upper :: "string \<Rightarrow> string" where
  "upper str =
     map (\<lambda>ch. let n = (of_char ch :: nat)
               in if 97 \<le> n \<and> n \<le> 122 then char_of (n - 32) else ch) str"

text \<open>\<open>os.path.sep.join\<close>.\<close>

fun path_join :: "string list \<Rightarrow> string" where
  "path_join [] = []"
| "path_join [p] = p"
| "path_join (p # q # ps) = p @ ''/'' @ path_join (q # ps)"

text \<open>
  The local variables the first part of \<open>load_wake\<close> binds, depending on the source, the
  mode and the symmetry flag; \<open>None\<close> is a variable left unbound.
\<close>

record wake_paths =
  wakepath0 :: "string option"
  headerL :: "nat option"
  shiftpath :: "string option"
  wakepath1 :: "string option"
  wakepath2 :: "string option"
  wakepath3 :: "string option"
  wakepath4 :: "string option"

definition no_paths :: wake_paths where
  "no_paths = \<lparr>wakepath0 = None, headerL = None, shiftpath = None, wakepath1 = None,
                wakepath2 = None, wakepath3 = None, wakepath4 = None\<rparr>"

definition set_paths :: "string \<Rightarrow> int \<Rightarrow> int \<Rightarrow> string \<Rightarrow> string \<Rightarrow> wake_paths" where
  "set_paths dsrc mm sy whaxis wdir =
     (if startswith dsrc ''ACE3P'' then
        no_paths\<lparr>wakepath0 := Some (path_join [wdir, ''wakefield.out'']), headerL := Some 3\<rparr>
      else if startswith dsrc ''GdfidL'' then
        (if mm = 0 then
           no_paths\<lparr>headerL := Some 11,
                    wakepath0 := Some (path_join [wdir, ''Results-Wq_AT_XY.0001''])\<rparr>
         else if mm = 1 then
           (if sy \<noteq> 0 then
              no_paths\<lparr>headerL := Some 11,
                shiftpath := Some (path_join [wdir, ''Results-Wq_AT_XY.0001'']),
                wakepath1 := Some (path_join [wdir, ''Results-W'' @ upper whaxis @ ''_AT_XY.0001'']),
                wakepath2 := Some (path_join [wdir, ''Results-W'' @ upper whaxis @ ''_AT_XY.0002''])\<rparr>
            else
              no_paths\<lparr>headerL := Some 11,
                shiftpath := Some (path_join [wdir, ''dxdpl'', ''Results-Wq_AT_XY.0001'']),
                wakepath1 := Some (path_join [wdir, ''d'' @ whaxis @ ''dpl'',
                                     ''Results-W'' @ upper whaxis @ ''_AT_XY.0001'']),
                wakepath2 := Some (path_join [wdir, ''d'' @ whaxis @ ''dpl'',
                                     ''Results-W'' @ upper whaxis @ ''_AT_XY.0002'']),
                wakepath3 := Some (path_join [wdir, ''d'' @ whaxis @ ''dmi'',
                                     ''Results-W'' @ upper whaxis @ ''_AT_XY.0001'']),
                wakepath4 := Some (path_join [wdir, ''d'' @ whaxis @ ''dmi'',
                                     ''Results-W'' @ upper whaxis @ ''_AT_XY.0002''])\<rparr>)
         else if mm = 2 then
           (if sy = 0 then
              no_paths\<lparr>headerL := Some 11,
                wakepath1 := Some (path_join [wdir, ''Results-W'' @ upper whaxis @ ''_AT_XY.0001'']),
                wakepath2 := Some (path_join [wdir, ''Results-W'' @ upper whaxis @ ''_AT_XY.0002''])\<rparr>
            else
              no_paths\<lparr>headerL := Some 11,
                wakepath1 := Some (path_join [wdir, ''Results-W'' @ upper whaxis @ ''_AT_XY.0001''])\<rparr>)
         else no_paths\<lparr>headerL := Some 11\<rparr>)
      else if startswith dsrc ''CST'' then
        no_paths\<lparr>wakepath0 := Some (path_join [wdir, ''wake.txt'']), headerL := Some 2\<rparr>
      else if startswith dsrc ''ECHO'' then
        (if mm = 0 then
           no_paths\<lparr>wakepath0 := Some (path_join [wdir, ''wake.dat'']), headerL := Some 0\<rparr>
         else if mm > 0 then
           (if sy \<noteq> 0 then
              no_paths\<lparr>wakepath0 := Some (path_join [wdir, ''wakeT.dat'']), headerL := Some 0\<rparr>
            else no_paths)
         else no_paths)
      else no_paths)"

text \<open>Reading a local variable: an unbound one raises \<open>UnboundLocalError\<close>.\<close>

definition local_var :: "'a option \<Rightarrow> error + 'a" where
  "local_var v = (case v of None \<Rightarrow> Inl UnboundLocalError | Some x \<Rightarrow> Inr x)"

text \<open>\<open>(a + b)/2\<close> and \<open>(a - b)/2\<close> on arrays.\<close>

definition half_sum :: "array \<Rightarrow> array \<Rightarrow> error + array" where
  "half_sum a b = bindE (bcast2 (\<lambda>u v. u + v) a b) (\<lambda>xs. Inr (map (\<lambda>x. x / 2) xs))"

definition half_diff :: "array \<Rightarrow> array \<Rightarrow> error + array" where
  "half_diff a b = bindE (bcast2 (\<lambda>u v. u - v) a b) (\<lambda>xs. Inr (map (\<lambda>x. x / 2) xs))"

text \<open>The format strings passed to \<open>textscan\<close>; \<open>CHR 0x22\<close> is the double quote.\<close>

definition fmt_dipole :: string where
  "fmt_dipole = '' %% subtitle= '' @ [CHR 0x22] @ ''W_l (x,y)= ( %f, %f ) [m]'' @ [CHR 0x22]"

definition fmt_quad :: "string \<Rightarrow> string" where
  "fmt_quad ax = '' %% subtitle= '' @ [CHR 0x22] @ ''integral d/d'' @ ax @
                 '' W(z) dz, (x,y)=( %f, %f )'' @ [CHR 0x22]"

text \<open>
  The second part of \<open>load_wake\<close>, ``read specified file(s)'': the positions and the
  wake, and the file system after the copies. Each file is copied right after it is
  read, before its columns are taken. In the GdfidL branch, mode 0 reads \<open>loadres\<close>,
  which only the other branch binds; mode 2 tests \<open>~sym\<close>, the bitwise complement, which
  is nonzero unless \<open>sym = -1\<close>; a mode other than 0, 1, 2 binds nothing, and the
  assignment \<open>globdata.results.W = wake\<close> at the end of the function raises.
\<close>

definition read_files ::
  "filesystem \<Rightarrow> bool \<Rightarrow> string \<Rightarrow> string \<Rightarrow> int \<Rightarrow> int \<Rightarrow> string \<Rightarrow> wake_paths \<Rightarrow>
   error + filesystem \<times> array \<times> array"
where
  "read_files fs cpfile tardir dsrc mm sy whaxis p =
     (if \<not> startswith dsrc ''GdfidL'' then
        bindE (local_var (wakepath0 p)) (\<lambda>wp.
        bindE (local_var (headerL p)) (\<lambda>hl.
        bindE (loadtxt fs wp hl) (\<lambda>loadres.
        bindE (copy_if cpfile fs wp tardir) (\<lambda>fs1.
        bindE (column loadres 0) (\<lambda>spos.
        bindE (column loadres 1) (\<lambda>c1.
          Inr (fs1, spos, if mm = 0 then map uminus c1 else c1)))))))
      else if mm = 0 then Inl UnboundLocalError
      else if mm = 1 then
        bindE (local_var (wakepath1 p)) (\<lambda>wp1.
        bindE (local_var (headerL p)) (\<lambda>hl.
        bindE (loadtxt fs wp1 hl) (\<lambda>loadres1.
        bindE (local_var (wakepath2 p)) (\<lambda>wp2.
        bindE (loadtxt fs wp2 hl) (\<lambda>loadres2.
        bindE (copy_if cpfile fs wp1 tardir) (\<lambda>fs1.
        bindE (copy_if cpfile fs1 wp2 tardir) (\<lambda>fs2.
        bindE (column loadres1 0) (\<lambda>spos.
        bindE (column loadres1 1) (\<lambda>a1.
        bindE (column loadres2 1) (\<lambda>a2.
        bindE (half_sum a1 a2) (\<lambda>wabs0.
        bindE (if sy = 0 then
                 bindE (local_var (wakepath3 p)) (\<lambda>wp3.
                 bindE (loadtxt fs2 wp3 hl) (\<lambda>loadres3.
                 bindE (local_var (wakepath4 p)) (\<lambda>wp4.
                 bindE (loadtxt fs2 wp4 hl) (\<lambda>loadres4.
                 bindE (copy_if cpfile fs2 wp3 tardir) (\<lambda>fs3.
                 bindE (copy_if cpfile fs3 wp4 tardir) (\<lambda>fs4.
                 bindE (column loadres3 1) (\<lambda>a3.
                 bindE (column loadres4 1) (\<lambda>a4.
                 bindE (half_sum a3 a4) (\<lambda>wabs2.
                 bindE (half_diff wabs0 wabs2) (\<lambda>wabs1. Inr (fs4, wabs1)))))))))))
               else Inr (fs2, wabs0)) (\<lambda>(fs5, wabs).
        bindE (local_var (shiftpath p)) (\<lambda>sp.
        bindE (third_line fs5 sp) (\<lambda>loadres5.
        bindE (copy_if cpfile fs5 sp tardir) (\<lambda>fs6.
        bindE (textscan loadres5 fmt_dipole) (\<lambda>coord.
        bindE (if startswith whaxis ''x'' then index coord 1
               else if startswith whaxis ''y'' then index coord 2
               else Inl UnboundLocalError) (\<lambda>shift.
          Inr (fs6, spos, map (\<lambda>x. x / shift) wabs))))))))))))))))))
      else if mm = 2 then
        bindE (local_var (wakepath1 p)) (\<lambda>wp1.
        bindE (local_var (headerL p)) (\<lambda>hl.
        bindE (loadtxt fs wp1 hl) (\<lambda>loadres1.
        bindE (copy_if cpfile fs wp1 tardir) (\<lambda>fs1.
        bindE (column loadres1 0) (\<lambda>spos.
        bindE (column loadres1 1) (\<lambda>wabs0.
        bindE (if sy \<noteq> - 1 then
                 bindE (local_var (wakepath2 p)) (\<lambda>wp2.
                 bindE (loadtxt fs1 wp2 hl) (\<lambda>loadres2.
                 bindE (copy_if cpfile fs1 wp2 tardir) (\<lambda>fs2.
                 bindE (column loadres2 1) (\<lambda>w2.
                 bindE (half_diff wabs0 w2) (\<lambda>wabs1. Inr (fs2, wabs1))))))
               else Inr (fs1, wabs0)) (\<lambda>(fs3, wabs).
        bindE (third_line fs3 wp1) (\<lambda>loadres5.
        bindE (copy_if cpfile fs3 wp1 tardir) (\<lambda>fs4.
        bindE (if startswith whaxis ''x'' then
                 bindE (textscan loadres5 (fmt_quad ''x'')) (\<lambda>coord. index coord 1)
               else if startswith whaxis ''y'' then
                 bindE (textscan loadres5 (fmt_quad ''y'')) (\<lambda>coord. index coord 2)
               else Inl UnboundLocalError) (\<lambda>shift.
          Inr (fs4, spos, map (\<lambda>x. - x / shift) wabs)))))))))))
      else Inl UnboundLocalError)"

text \<open>
  \<open>load_wake\<close>. Files are copied when the wake directory does not start with the target
  directory. The ACE3P displacement reads \<open>globdata.simpar.sigma\<close>; \<open>Simpar\<close> has no such
  attribute (the bunch length of the simulation is \<open>bunlen\<close>; \<open>sigma\<close> is an attribute of
  \<open>Ringpar\<close>), so the line raises \<open>AttributeError\<close>.
\<close>

definition load_wake :: "filesystem \<Rightarrow> GlobData \<Rightarrow> error + filesystem \<times> GlobData" where
  "load_wake fs globdata =
     (let dsrc = datasource (simpar globdata);
          mm = m (simpar globdata);
          sy = sym (simpar globdata);
          whaxis = whichaxis (simpar globdata);
          wdir = wakepath (simpar globdata);
          tardir = targetdir (simpar globdata);
          cpfile = (\<not> startswith wdir tardir);
          p = set_paths dsrc mm sy whaxis wdir
      in bindE (read_files fs cpfile tardir dsrc mm sy whaxis p) (\<lambda>(fs1, spos, wake).
         bindE (if startswith dsrc ''ACE3P'' then Inl AttributeError
                else if startswith dsrc ''CST'' then
                  Inr (map (\<lambda>x. x / 1000) spos, if mm > 0 then map uminus wake else wake)
                else if startswith dsrc ''ECHO'' then
                  Inr (map (\<lambda>x. x / 100) spos, wake)
                else Inr (spos, wake)) (\<lambda>(spos1, wake1).
           Inr (fs1, globdata\<lparr>results := (results globdata)\<lparr>W := wake1, s := spos1\<rparr>\<rparr>))))"

section \<open>Impedance from the wake\<close>

text \<open>
  \<open>numpy.hanning(M)\<close>: empty for \<open>M < 1\<close>, \<open>[1]\<close> for \<open>M = 1\<close>, and otherwise
  \<open>0.5 - 0.5*cos(2*pi*n/(M-1))\<close> for \<open>n = 0, \<dots>, M-1\<close>.
\<close>

definition hanning :: "nat \<Rightarrow> array" where
  "hanning M =
     (if M < 1 then []
      else if M = 1 then [1]
      else map (\<lambda>n. 1 / 2 - 1 / 2 * cos (2 * pi * real n / real (M - 1))) [0..<M])"

text \<open>
  The window of \<open>calc_impedance\<close>: \<open>hanning(2*N)[N-1:-1]\<close>, the samples \<open>N-1, \<dots>, 2N-2\<close>
  of the length-\<open>2N\<close> window.
\<close>

definition window :: "nat \<Rightarrow> array" where
  "window N = drop (N - 1) (butlast (hanning (2 * N)))"

text \<open>
  \<open>numpy.fft.fft\<close>: \<open>A[k] = sum over j of a[j] * exp(-2*pi*i*j*k/n)\<close>; an empty input
  raises \<open>ValueError\<close>.
\<close>

definition fft :: "complex list \<Rightarrow> error + complex list" where
  "fft a =
     (let n = length a
      in if n = 0 then Inl ValueError
         else Inr (map (\<lambda>k. sum_list (map (\<lambda>j. a ! j *
                     cis (- (2 * pi * real j * real k / real n))) [0..<n])) [0..<n]))"

text \<open>
  \<open>numpy.fft.fftfreq(n, d)\<close>: the integers \<open>0, \<dots>, (n-1)//2\<close> followed by
  \<open>-(n//2), \<dots>, -1\<close>, each times \<open>1/(n*d)\<close>.
\<close>

definition fftfreq :: "nat \<Rightarrow> real \<Rightarrow> array" where
  "fftfreq n d =
     map (\<lambda>j. real_of_int j * (1 / (real n * d)))
       (map int [0..<(n - 1) div 2 + 1] @ map (\<lambda>j. int j - int (n div 2)) [0..<n div 2])"

text \<open>\<open>numpy.roll(a, k)\<close>: the element at index \<open>i\<close> moves to index \<open>(i + k) mod n\<close>.\<close>

definition roll :: "'a list \<Rightarrow> nat \<Rightarrow> 'a list" where
  "roll a k =
     (let n = length a
      in if n = 0 then a else drop (n - k mod n) a @ take (n - k mod n) a)"

text \<open>Indexing by a boolean array of the same length: \<open>a[indcs]\<close>.\<close>

definition bool_index :: "'a list \<Rightarrow> bool list \<Rightarrow> 'a list" where
  "bool_index a indcs = map fst (filter snd (zip a indcs))"

text \<open>
  \<open>calc_impedance\<close>. \<open>saxis[-1]\<close> raises \<open>IndexError\<close> on an empty position array, the
  transform raises \<open>ValueError\<close> on an empty wake, and \<open>cutoff/sigt\<close> is a division of
  Python floats, which raises \<open>ZeroDivisionError\<close> when the bunch length is 0.

  \<open>dt\<close> is computed with numpy scalars. With a single position the quotient is \<open>0.0/0\<close>,
  which is \<open>nan\<close>; with equal first and last positions \<open>dt\<close> is \<open>0.0\<close> and \<open>1/(n*dt)\<close> is
  \<open>inf\<close>. In both cases every entry of \<open>freq\<close> and \<open>w\<close> is \<open>nan\<close> or infinite, and the
  comparison \<open>abs(w) <= wmax\<close> is false for all of them: no bin is retained.
\<close>

definition calc_impedance :: "GlobData \<Rightarrow> error + GlobData" where
  "calc_impedance globdata =
     (let mm = m (simpar globdata);
          sigs = bunlen (simpar globdata);
          wake = map (\<lambda>x. x * 10 ^ 12) (W (results globdata));
          saxis = s (results globdata);
          f0 = omega0 (ringpar globdata) / (2 * pi);
          sigt = sigs / c_light
      in if saxis = [] then Inl IndexError
         else
           let dt = (last saxis - hd saxis) / real (length saxis - 1) / c_light;
               win = window (length wake)
           in bindE (fft (map2 (\<lambda>u v. complex_of_real (u * v)) wake win)) (\<lambda>fftt0.
                let freq0 = fftfreq (length wake) dt;
                    fftt = roll fftt0 (length fftt0 div 2);
                    fr = roll freq0 (length freq0 div 2);
                    w = map (\<lambda>f. 2 * pi * f) fr;
                    shift = map (\<lambda>x. cis (- (x * hd saxis / c_light))) w;
                    VHat = map2 (\<lambda>sh ft. complex_of_real dt * sh * ft) shift fftt;
                    Jwlist = map (\<lambda>x. exp (- ((x * sigt) ^ 2) / 2)) w;
                    Z = map2 (\<lambda>v j. v / complex_of_real j) VHat Jwlist
                in if sigt = 0 then Inl ZeroDivisionError
                   else
                     let wmax = cutoff (simpar globdata) / sigt;
                         indcs = (if length saxis = 1 \<or> last saxis = hd saxis
                                  then map (\<lambda>x. False) w
                                  else map (\<lambda>x. \<bar>x\<bar> \<le> wmax) w)
                     in if mm = 0 then
                          let fr1 = bool_index fr indcs;
                              ReZ = map Re (bool_index Z indcs);
                              ImZ = map (\<lambda>z. - Im z) (bool_index Z indcs);
                              indcs2 = map (\<lambda>f. 2 * pi * \<bar>f\<bar> < 20 * 10 ^ 9 \<and> f \<noteq> 0) fr1;
                              nax = map (\<lambda>f. f / f0) (bool_index fr1 indcs2);
                              ImZn = map2 (\<lambda>z n. z / n) (bool_index ImZ indcs2) nax
                          in Inr (globdata\<lparr>results := (results globdata)
                               \<lparr>freq := fr1, ReZlong := ReZ, ImZlong := ImZ,
                                naxis := nax, ImZoN := ImZn\<rparr>\<rparr>)
                        else if mm > 0 then
                          Inr (globdata\<lparr>results := (results globdata)
                               \<lparr>freq := bool_index fr indcs, ReZt := map Im (bool_index Z indcs),
                                ImZt := map Re (bool_index Z indcs)\<rparr>\<rparr>)
                        else Inr globdata))"

section \<open>Loss and kick factors\<close>

text \<open>
  The body of both scan loops: \<open>rhok = exp(-ksq*sig**2)\<close> and
  \<open>trapz(Z*rhok, x=k) * c / (2*pi) * 1e-12\<close>.
\<close>

definition kfactor :: "array \<Rightarrow> array \<Rightarrow> array \<Rightarrow> real \<Rightarrow> error + real" where
  "kfactor Z k ksq sig =
     (let rhok = map (\<lambda>q. exp (- q * sig ^ 2)) ksq
      in bindE (bcast2 (\<lambda>u v. u * v) Z rhok)
           (\<lambda>y. bindE (trapz y k)
              (\<lambda>t. Inr (t * c_light / (2 * pi) * (1 / 10 ^ 12)))))"

definition sigvec :: array where
  "sigvec = map (\<lambda>x. x * (1 / 10 ^ 3)) [265 / 100, 53 / 10, 265 / 100, 4, 10, 10]"

definition Ivec :: array where
  "Ivec = map (\<lambda>x. x * (1 / 10 ^ 3)) [500, 500, 10, 110, 110, 500]"

text \<open>The time-domain factor: \<open>trapz(wake*rhos, x=saxis)\<close> with the Gaussian density.\<close>

definition kwake :: "array \<Rightarrow> array \<Rightarrow> real \<Rightarrow> error + real" where
  "kwake wake saxis sigs =
     (let ss = map (\<lambda>x. x ^ 2) saxis;
          rhos = map (\<lambda>q. (1 / (sigs * sqrt (2 * pi))) * exp (- q / (2 * sigs ^ 2))) ss
      in bindE (bcast2 (\<lambda>u v. u * v) wake rhos) (\<lambda>y. trapz y saxis))"

definition calc_loss_factor :: "GlobData \<Rightarrow> error + GlobData" where
  "calc_loss_factor globdata =
     (let hn = h (ringpar globdata) in
      if omega0 (ringpar globdata) = 0 then Inl ZeroDivisionError
      else
        let T0 = 2 * pi / omega0 (ringpar globdata);
            Iav = Iavg (ringpar globdata);
            sigs = bunlen (simpar globdata);
            wake = W (results globdata);
            saxis = s (results globdata);
            fr = freq (results globdata);
            ReZ = ReZlong (results globdata);
            k = map (\<lambda>f. (f * 2 * pi) / c_light) fr;
            ksq = map (\<lambda>x. x ^ 2) k;
            sigmax = sigmamax (ringpar globdata);
            sigmin = bunlen (simpar globdata);
            sigi = linspace sigmin sigmax 100
        in bindE (mapE (kfactor ReZ k ksq) sigi) (\<lambda>kZi.
           bindE (mapE (kfactor ReZ k ksq) sigvec) (\<lambda>kZvec.
             let Plv = map2 (\<lambda>kz I. kz * I ^ 2 * T0 * 10 ^ 12 / real_of_int hn) kZvec Ivec
             in bindE (kwake wake saxis sigs) (\<lambda>kW.
                  let Pl = kW * Iav ^ 2 * T0 * 10 ^ 12 / real_of_int hn
                  in Inr (globdata\<lparr>results := (results globdata)
                       \<lparr>klossZ := kZi, sigmak := sigi, Plossvec := Plv,
                        klossW := Some kW, Ploss := Some Pl\<rparr>\<rparr>)))))"

definition calc_kick_factor :: "GlobData \<Rightarrow> error + GlobData" where
  "calc_kick_factor globdata =
     (let sigs = bunlen (simpar globdata);
          wake = W (results globdata);
          saxis = s (results globdata);
          fr = freq (results globdata);
          ImZ = ImZt (results globdata);
          w = map (\<lambda>f. f * 2 * pi) fr;
          k = map (\<lambda>x. x / c_light) w;
          ksq = map (\<lambda>x. x ^ 2) k;
          sigmax = sigmamax (ringpar globdata);
          sigmin = bunlen (simpar globdata);
          sigi = linspace sigmin sigmax 100
      in bindE (kfactor ImZ k ksq sigs) (\<lambda>kickZ0.
         bindE (mapE (kfactor ImZ k ksq) sigi) (\<lambda>kickZi.
         bindE (kwake wake saxis sigs) (\<lambda>kW.
           Inr (globdata\<lparr>results := (results globdata)
                  \<lparr>kickZ := kickZi, sigmak := sigi, kickW := Some kW\<rparr>\<rparr>)))))"


section \<open>The copies in sequence\<close>

text \<open>Copying a list of files into one destination, stopping at the first that raises.\<close>

fun copy_all :: "filesystem \<Rightarrow> string list \<Rightarrow> string \<Rightarrow> error + filesystem" where
  "copy_all fs [] dst = Inr fs"
| "copy_all fs (src # srcs) dst =
     (case copy2 fs src dst of Inl e \<Rightarrow> Inl e | Inr fs1 \<Rightarrow> copy_all fs1 srcs dst)"

section \<open>The retained frequencies in closed form\<close>

text \<open>
  The zero-centred frequency axis of \<open>calc_impedance\<close> before the cutoff, and the bins
  that pass the cutoff \<open>abs(w) <= cutoff/sigt\<close>.
\<close>

definition freq_axis :: "GlobData \<Rightarrow> array" where
  "freq_axis g =
     (let saxis = s (results g);
          dt = (last saxis - hd saxis) / real (length saxis - 1) / c_light;
          freq0 = fftfreq (length (W (results g))) dt
      in roll freq0 (length freq0 div 2))"

definition retained :: "GlobData \<Rightarrow> array" where
  "retained g =
     (if length (s (results g)) = 1 \<or> last (s (results g)) = hd (s (results g)) then []
      else filter (\<lambda>f. \<bar>2 * pi * f\<bar> \<le> cutoff (simpar g) / (bunlen (simpar g) / c_light))
             (freq_axis g))"

text \<open>
  The selection of the \<open>Z/n\<close> arrays with the bound on \<open>\<bar>\<omega>\<bar>\<close> as a parameter:
  the arrays over the frequencies with \<open>\<bar>2\<pi>f\<bar> < bound\<close> and \<open>f \<noteq> 0\<close>. The
  specification words the bound as \<open>2\<pi> \<cdot> 20 GHz\<close>.
\<close>

definition zn_select :: "real \<Rightarrow> real \<Rightarrow> bool" where
  "zn_select bound f \<longleftrightarrow> \<bar>2 * pi * f\<bar> < bound \<and> f \<noteq> 0"

definition naxis_over :: "real \<Rightarrow> real \<Rightarrow> array \<Rightarrow> array" where
  "naxis_over bound f0 fr = map (\<lambda>f. f / f0) (filter (zn_select bound) fr)"

definition ImZoN_over :: "real \<Rightarrow> real \<Rightarrow> array \<Rightarrow> array \<Rightarrow> array" where
  "ImZoN_over bound f0 fr ImZ =
     map (\<lambda>p. snd p / (fst p / f0)) (filter (\<lambda>p. zn_select bound (fst p)) (zip fr ImZ))"

section \<open>The frequency-domain factor in closed form\<close>

text \<open>
  The trapezoidal rule over abscissae \<open>x\<close> and samples \<open>y\<close>, as a sum over the
  intervals.
\<close>

definition trapezoid :: "array \<Rightarrow> array \<Rightarrow> real" where
  "trapezoid x y =
     sum_list (map (\<lambda>i. (x ! Suc i - x ! i) * (y ! i + y ! Suc i) / 2) [0..<length x - 1])"

text \<open>
  The factor as the specification words it: \<open>(c / 2\<pi>) \<cdot> 1e-12\<close> times the trapezoidal
  integral over \<open>\<omega> = 2\<pi>\<cdot>freq\<close> of \<open>Z(\<omega>) \<cdot> exp(-\<omega>\<^sup>2\<sigma>\<^sup>2)\<close>.
\<close>

definition factor_claimed :: "array \<Rightarrow> array \<Rightarrow> real \<Rightarrow> real" where
  "factor_claimed fr Z sg =
     (let w = map (\<lambda>f. 2 * pi * f) fr
      in c_light / (2 * pi) * (1 / 10 ^ 12) *
         trapezoid w (map2 (\<lambda>z x. z * exp (- (x ^ 2 * sg ^ 2))) Z w))"

text \<open>
  The factor the code computes, written over \<open>\<omega>\<close>: \<open>(1 / 2\<pi>) \<cdot> 1e-12\<close> times the
  trapezoidal integral over \<open>\<omega>\<close> of \<open>Z(\<omega>) \<cdot> exp(-\<omega>\<^sup>2\<sigma>\<^sup>2 / c\<^sup>2)\<close>.
\<close>

definition factor_omega :: "array \<Rightarrow> array \<Rightarrow> real \<Rightarrow> real" where
  "factor_omega fr Z sg =
     (let w = map (\<lambda>f. 2 * pi * f) fr
      in 1 / (2 * pi) * (1 / 10 ^ 12) *
         trapezoid w (map2 (\<lambda>z x. z * exp (- (x ^ 2 * sg ^ 2 / c_light ^ 2))) Z w))"

section \<open>Example inputs\<close>

text \<open>The constructors \<open>Ringpar()\<close>, \<open>Simpar()\<close>, \<open>Results()\<close> and \<open>GlobData()\<close>.\<close>

definition Ringpar_init :: Ringpar where
  "Ringpar_init =
     \<lparr>circumf = 518396 / 1000, omega0 = 2 * pi * 299792458 / (518396 / 1000),
      sigma = 25 / 10 ^ 4, sigmamax = 15 / 10 ^ 3, Iavg = 500 / 10 ^ 3, h = 864\<rparr>"

definition Simpar_init :: Simpar where
  "Simpar_init =
     \<lparr>wakepath = [], targetdir = [], datasource = [], m = 0, offset = 0, sym = 0,
      whichaxis = [], units = 0, bunlen = 0, cutoff = 2\<rparr>"

definition Results_init :: Results where
  "Results_init =
     \<lparr>s = [], W = [], freq = [], naxis = [], ReZlong = [], ImZlong = [], ImZoN = [],
      ImZt = [], ReZt = [], klossW = None, klossZ = [], kickW = None, kickZ = [],
      sigmak = [], Ploss = None, Plossvec = []\<rparr>"

definition GlobData_init :: GlobData where
  "GlobData_init = \<lparr>ringpar = Ringpar_init, simpar = Simpar_init, results = Results_init\<rparr>"

text \<open>
  A longitudinal data set with a bunch length of 1 mm, a two-sample wake and a
  three-bin spectrum whose real part is 1 at zero frequency.
\<close>

definition g_loss :: GlobData where
  "g_loss = GlobData_init
     \<lparr>simpar := Simpar_init\<lparr>bunlen := 1 / 10 ^ 3\<rparr>,
      results := Results_init\<lparr>s := [0, 1], W := [1, 1], freq := [-1, 0, 1],
                   ReZlong := [0, 1, 0]\<rparr>\<rparr>"

text \<open>The same spectrum as the imaginary part of a dipole impedance.\<close>

definition g_kick :: GlobData where
  "g_kick = GlobData_init
     \<lparr>simpar := Simpar_init\<lparr>m := 1, bunlen := 1 / 10 ^ 3\<rparr>,
      results := Results_init\<lparr>s := [0, 1], W := [1, 1], freq := [-1, 0, 1],
                   ImZt := [0, 1, 0]\<rparr>\<rparr>"

text \<open>
  Two longitudinal wakes of two samples, \<open>c \<cdot> 1e-10\<close> m and \<open>c \<cdot> 1e-9\<close> m long, with the
  bunch length \<open>prepare_struct_for_load\<close> defaults to: the frequency axes are
  \<open>[-5 GHz, 0]\<close> and \<open>[-0.5 GHz, 0]\<close>.
\<close>

definition g_imp :: GlobData where
  "g_imp = GlobData_init
     \<lparr>simpar := Simpar_init\<lparr>bunlen := 5 / 10 ^ 4\<rparr>,
      results := Results_init\<lparr>s := [0, 299792458 / 10 ^ 10], W := [1, 1]\<rparr>\<rparr>"

definition g_imp_low :: GlobData where
  "g_imp_low = GlobData_init
     \<lparr>simpar := Simpar_init\<lparr>bunlen := 5 / 10 ^ 4\<rparr>,
      results := Results_init\<lparr>s := [0, 299792458 / 10 ^ 9], W := [1, 1]\<rparr>\<rparr>"

text \<open>
  \<open>prepare_struct_for_load\<close> without a new directory: the wake directory is also the
  target directory.
\<close>

definition prepare_struct_for_load :: "string \<Rightarrow> int \<Rightarrow> real \<Rightarrow> string \<Rightarrow> GlobData" where
  "prepare_struct_for_load rootdir mm sig code =
     GlobData_init\<lparr>simpar := Simpar_init
       \<lparr>wakepath := rootdir, targetdir := rootdir, datasource := code, cutoff := 2,
        bunlen := sig, m := mm, sym := 1, whichaxis := ''y'', units := 1\<rparr>\<rparr>"

text \<open>
  A directory \<open>w\<close> with one wake file of two samples for each single-file source and the
  three files of a symmetric GdfidL dipole run on the \<open>y\<close> axis, and a writable directory
  \<open>t\<close>: a copy into \<open>t\<close> writes the file under its own name, a copy to any other
  destination raises.
\<close>

definition two_rows :: "nat \<Rightarrow> real list \<Rightarrow> real list \<Rightarrow> wakefile" where
  "two_rows n r1 r2 = replicate n (Text ''header'') @ [Row r1, Row r2]"

definition basename :: "string \<Rightarrow> string" where
  "basename path = rev (takeWhile (\<lambda>ch. ch \<noteq> CHR ''/'') (rev path))"

definition fs_example :: filesystem where
  "fs_example = \<lparr>files = map_of
     [(''w/wakefield.out'', two_rows 3 [0, 1] [1, 3]),
      (''w/wake.txt'', two_rows 2 [0, 1] [1, 3]),
      (''w/wake.dat'', two_rows 0 [0, 1] [1, 3]),
      (''w/Results-WY_AT_XY.0001'', two_rows 11 [0, 1] [1, 3]),
      (''w/Results-WY_AT_XY.0002'', two_rows 11 [0, 3] [1, 5]),
      (''w/Results-Wq_AT_XY.0001'',
         [Text ''header'', Text ''header'',
          Text ('' % subtitle= '' @ [CHR 0x22] @ ''W_l (x,y)= ( 0.0, 0.001 ) [m]'' @ [CHR 0x22])]
         @ two_rows 8 [0, 1] [1, 3])],
      copy_target = (\<lambda>src dst. if dst = ''t'' then Some (''t/'' @ basename src) else None)\<rparr>"

text \<open>
  The data of \<open>prepare_struct_for_load\<close> for a CST run in \<open>w\<close> with the target directory
  \<open>t\<close>, and for an ECHO run with the target directory \<open>u/v\<close>, which does not exist.
\<close>

definition g_cst_copy :: GlobData where
  "g_cst_copy = (prepare_struct_for_load ''w'' 0 (5 / 10 ^ 4) ''CST'')
     \<lparr>simpar := simpar (prepare_struct_for_load ''w'' 0 (5 / 10 ^ 4) ''CST'')
        \<lparr>targetdir := ''t''\<rparr>\<rparr>"

definition g_echo_copy :: GlobData where
  "g_echo_copy = (prepare_struct_for_load ''w'' 0 (5 / 10 ^ 4) ''ECHO'')
     \<lparr>simpar := simpar (prepare_struct_for_load ''w'' 0 (5 / 10 ^ 4) ''ECHO'')
        \<lparr>targetdir := ''u/v''\<rparr>\<rparr>"

text \<open>
  Arrays of mismatched lengths: a wake of three samples on two positions, and impedances
  of two samples on three frequencies; and a position array without a wake.
\<close>

definition g_mismatch :: GlobData where
  "g_mismatch = GlobData_init
     \<lparr>simpar := Simpar_init\<lparr>bunlen := 5 / 10 ^ 4\<rparr>,
      results := Results_init\<lparr>s := [0, 1], W := [1, 1, 1], freq := [-1, 0, 1],
                   ReZlong := [0, 1], ImZt := [0, 1]\<rparr>\<rparr>"

definition g_no_wake :: GlobData where
  "g_no_wake = GlobData_init
     \<lparr>simpar := Simpar_init\<lparr>bunlen := 5 / 10 ^ 4\<rparr>,
      results := Results_init\<lparr>s := [0, 1]\<rparr>\<rparr>"

section \<open>Helper lemmas\<close>

lemma bindE_Inr_iff: "bindE x f = Inr r \<longleftrightarrow> (\<exists>v. x = Inr v \<and> f v = Inr r)"
  by (cases x) (simp_all add: bindE_def)

lemma length_linspace: "length (linspace a b n) = n"
  by (simp add: linspace_def Let_def)


lemma nth_linspace:
  "1 < n \<Longrightarrow> i < n \<Longrightarrow>
   linspace a b n ! i = (if i = n - 1 then b else real i * ((b - a) / real (n - 1)) + a)"
  by (simp add: linspace_def Let_def nth_list_update)

lemma linspace_strict:
  assumes "a < b" "1 < n"
  shows "sorted_wrt (<) (linspace a b n)"
proof -
  have step: "0 < (b - a) / real (n - 1)" using assms by simp
  have "linspace a b n ! i < linspace a b n ! j" if "i < j" "j < n" for i j
  proof (cases "j = n - 1")
    case True
    have "real i < real (n - 1)" using that True by simp
    then have "real i * ((b - a) / real (n - 1)) < real (n - 1) * ((b - a) / real (n - 1))"
      using step by (simp only: mult_strict_right_mono)
    also have "\<dots> = b - a" using assms by simp
    finally show ?thesis using that True assms by (simp add: nth_linspace)
  next
    case False
    have "real i * ((b - a) / real (n - 1)) < real j * ((b - a) / real (n - 1))"
      using step that by (simp only: mult_strict_right_mono of_nat_less_iff)
    moreover have "i \<noteq> n - 1" using that by simp
    ultimately show ?thesis using that False assms by (simp add: nth_linspace)
  qed
  then show ?thesis by (simp add: sorted_wrt_iff_nth_less length_linspace)
qed

lemma hd_linspace: "1 < n \<Longrightarrow> hd (linspace a b n) = a"
  using nth_linspace [of n 0 a b] by (simp add: hd_conv_nth length_linspace flip: length_greater_0_conv)

lemma last_linspace: "1 < n \<Longrightarrow> last (linspace a b n) = b"
  using nth_linspace [of n "n - 1" a b] 
  by (simp add: last_conv_nth length_linspace flip: length_greater_0_conv)

lemma mapE_Inr:
  "(\<And>x. x \<in> set xs \<Longrightarrow> \<exists>y. f x = Inr y) \<Longrightarrow> \<exists>ys. mapE f xs = Inr ys"
proof (induction xs)
  case Nil
  show ?case by simp
next
  case (Cons x xs)
  obtain y where "f x = Inr y" using Cons.prems by auto
  moreover obtain ys where "mapE f xs = Inr ys" using Cons by auto
  ultimately show ?case by simp
qed

lemma length_diff: "length (diff a) = length a - 1"
  by (simp add: diff_def)

lemma trapz_Inr: "length y = length x \<Longrightarrow> \<exists>t. trapz y x = Inr t"
  by (simp add: trapz_def bindE_def bcast2_def length_diff)

lemma kfactor_Inr: "length Z = length k \<Longrightarrow> length ksq = length k \<Longrightarrow> \<exists>t. kfactor Z k ksq sg = Inr t"
proof -
  assume a: "length Z = length k" "length ksq = length k"
  obtain t where "trapz (map2 (\<lambda>u v. u * v) Z (map (\<lambda>q. exp (- q * sg ^ 2)) ksq)) k = Inr t"
    using trapz_Inr [of "map2 (\<lambda>u v. u * v) Z (map (\<lambda>q. exp (- q * sg ^ 2)) ksq)" k] a by auto
  then show ?thesis using a by (simp add: kfactor_def bindE_def bcast2_def Let_def)
qed

lemma kwake_Inr: "length wake = length saxis \<Longrightarrow> \<exists>t. kwake wake saxis sg = Inr t"
proof -
  assume a: "length wake = length saxis"
  let ?r = "map (\<lambda>q. (1 / (sg * sqrt (2 * pi))) * exp (- q / (2 * sg ^ 2))) (map (\<lambda>x. x ^ 2) saxis)"
  obtain t where "trapz (map2 (\<lambda>u v. u * v) wake ?r) saxis = Inr t"
    using trapz_Inr [of "map2 (\<lambda>u v. u * v) wake ?r" saxis] a by auto
  then show ?thesis using a by (simp add: kwake_def bindE_def bcast2_def Let_def)
qed

lemma calc_loss_factor_returns:
  assumes "omega0 (ringpar g) \<noteq> 0"
    and "length (ReZlong (results g)) = length (freq (results g))"
    and "length (W (results g)) = length (s (results g))"
  shows "\<exists>r. calc_loss_factor g = Inr r"
proof -
  let ?k = "map (\<lambda>f. (f * 2 * pi) / c_light) (freq (results g))"
  let ?ksq = "map (\<lambda>x. x ^ 2) ?k"
  have kf: "\<exists>t. kfactor (ReZlong (results g)) ?k ?ksq sg = Inr t" for sg
    using assms by (intro kfactor_Inr) simp_all
  obtain a where a: "mapE (kfactor (ReZlong (results g)) ?k ?ksq)
      (linspace (bunlen (simpar g)) (sigmamax (ringpar g)) 100) = Inr a"
    using mapE_Inr [of _ "kfactor (ReZlong (results g)) ?k ?ksq"] kf by blast
  obtain b where b: "mapE (kfactor (ReZlong (results g)) ?k ?ksq) sigvec = Inr b"
    using mapE_Inr [of _ "kfactor (ReZlong (results g)) ?k ?ksq"] kf by blast
  obtain kW where kW: "kwake (W (results g)) (s (results g)) (bunlen (simpar g)) = Inr kW"
    using kwake_Inr assms(3) by blast
  show ?thesis using assms(1) a b kW by (simp add: calc_loss_factor_def Let_def bindE_def)
qed

lemma calc_loss_factor_sigmak:
  "calc_loss_factor g = Inr r \<Longrightarrow>
   sigmak (results r) = linspace (bunlen (simpar g)) (sigmamax (ringpar g)) 100"
  by (auto simp: calc_loss_factor_def Let_def bindE_Inr_iff split: if_splits)

lemma calc_kick_factor_sigmak:
  "calc_kick_factor g = Inr r \<Longrightarrow>
   sigmak (results r) = linspace (bunlen (simpar g)) (sigmamax (ringpar g)) 100"
  by (auto simp: calc_kick_factor_def Let_def bindE_Inr_iff split: if_splits)

lemma trapz_eq_trapezoid:
  assumes "length y = length x"
  shows "trapz y x = Inr (trapezoid x y)"
proof -
  let ?p = "map2 (\<lambda>u v. u * v) (diff x) (map2 (\<lambda>u v. u + v) (tl y) (butlast y))"
  have len: "length ?p = length x - 1" using assms by (simp add: length_diff)
  have "sum_list (map (\<lambda>v. v / 2) ?p) = trapezoid x y"
    unfolding trapezoid_def
  proof (rule arg_cong [where f = sum_list], rule nth_equalityI)
    show "length (map (\<lambda>v. v / 2) ?p) =
          length (map (\<lambda>i. (x ! Suc i - x ! i) * (y ! i + y ! Suc i) / 2) [0..<length x - 1])"
      using len by simp
  next
    fix i assume "i < length (map (\<lambda>v. v / 2) ?p)"
    then have i: "i < length x - 1" using assms by (simp add: length_diff)
    then show "map (\<lambda>v. v / 2) ?p ! i =
          map (\<lambda>i. (x ! Suc i - x ! i) * (y ! i + y ! Suc i) / 2) [0..<length x - 1] ! i"
      using assms by (simp add: diff_def nth_tl nth_butlast add.commute)
  qed
  then show ?thesis using assms by (simp add: trapz_def bindE_def bcast2_def length_diff)
qed

lemma sum_list_divide:
  "(\<Sum>i\<leftarrow>xs. f i / c) = (\<Sum>i\<leftarrow>xs. f i) / (c::real)"
  by (induction xs) (simp_all add: add_divide_distrib)

lemma trapezoid_scale:
  "trapezoid (map (\<lambda>v. v / c) x) y = trapezoid x y / c"
proof -
  have "(\<Sum>i\<leftarrow>[0..<length x - 1]. (map (\<lambda>v. v / c) x ! Suc i - map (\<lambda>v. v / c) x ! i) * (y ! i + y ! Suc i) / 2)
      = (\<Sum>i\<leftarrow>[0..<length x - 1]. (x ! Suc i - x ! i) * (y ! i + y ! Suc i) / 2 / c)"
    by (rule arg_cong [where f = sum_list], rule map_cong) (simp_all flip: diff_divide_distrib)
  also have "\<dots> = (\<Sum>i\<leftarrow>[0..<length x - 1]. (x ! Suc i - x ! i) * (y ! i + y ! Suc i) / 2) / c"
    by (rule sum_list_divide)
  finally show ?thesis by (simp add: trapezoid_def)
qed

lemma kfactor_eq_factor_omega:
  assumes "length Z = length fr"
  shows "kfactor Z (map (\<lambda>f. (f * 2 * pi) / c_light) fr)
           (map (\<lambda>x. x ^ 2) (map (\<lambda>f. (f * 2 * pi) / c_light) fr)) sg
         = Inr (factor_omega fr Z sg)"
proof -
  let ?w = "map (\<lambda>f. 2 * pi * f) fr"
  let ?k = "map (\<lambda>f. (f * 2 * pi) / c_light) fr"
  let ?y = "map2 (\<lambda>u v. u * v) Z (map (\<lambda>q. exp (- q * sg ^ 2)) (map (\<lambda>x. x ^ 2) ?k))"
  have k: "?k = map (\<lambda>v. v / c_light) ?w" by (simp add: mult.commute mult.left_commute)
  have y: "?y = map2 (\<lambda>z x. z * exp (- (x ^ 2 * sg ^ 2 / c_light ^ 2))) Z ?w"
    by (auto simp: zip_map2 power_divide mult.commute mult.left_commute)
  have "trapz ?y ?k = Inr (trapezoid ?k ?y)"
    using assms by (intro trapz_eq_trapezoid) simp
  also have "trapezoid ?k ?y = trapezoid ?w ?y / c_light"
    unfolding k by (rule trapezoid_scale)
  finally have t: "trapz ?y ?k = Inr (trapezoid ?w ?y / c_light)" .
  have c: "c_light \<noteq> 0" by (simp add: c_light_def)
  have b: "bcast2 (\<lambda>u v. u * v) Z (map (\<lambda>q. exp (- q * sg ^ 2)) (map (\<lambda>x. x ^ 2) ?k)) = Inr ?y"
    using assms by (simp add: bcast2_def)
  have "kfactor Z ?k (map (\<lambda>x. x ^ 2) ?k) sg =
        bindE (bcast2 (\<lambda>u v. u * v) Z (map (\<lambda>q. exp (- q * sg ^ 2)) (map (\<lambda>x. x ^ 2) ?k)))
          (\<lambda>y. bindE (trapz y ?k) (\<lambda>t. Inr (t * c_light / (2 * pi) * (1 / 10 ^ 12))))"
    by (simp only: kfactor_def Let_def)
  also have "\<dots> = bindE (trapz ?y ?k) (\<lambda>t. Inr (t * c_light / (2 * pi) * (1 / 10 ^ 12)))"
    by (simp only: b bindE_def sum.case)
  also have "\<dots> = Inr (trapezoid ?w ?y / c_light * c_light / (2 * pi) * (1 / 10 ^ 12))"
    by (simp only: t bindE_def sum.case)
  also have "\<dots> = Inr (factor_omega fr Z sg)"
    by (simp only: y factor_omega_def Let_def) (simp add: c)
  finally show ?thesis .
qed

lemma mapE_nth:
  "mapE f xs = Inr ys \<Longrightarrow> length ys = length xs \<and> (\<forall>i<length xs. f (xs ! i) = Inr (ys ! i))"
proof (induction xs arbitrary: ys)
  case Nil
  then show ?case by simp
next
  case (Cons x xs)
  from Cons.prems obtain y zs where y: "f x = Inr y" and zs: "mapE f xs = Inr zs"
    and ys: "ys = y # zs"
    by (auto split: sum.splits)
  from Cons.IH [OF zs] show ?case using y ys by (auto simp: nth_Cons split: nat.splits)
qed

lemma calc_loss_factor_klossZ:
  assumes "calc_loss_factor g = Inr r"
  shows "mapE (kfactor (ReZlong (results g)) (map (\<lambda>f. (f * 2 * pi) / c_light) (freq (results g)))
            (map (\<lambda>x. x ^ 2) (map (\<lambda>f. (f * 2 * pi) / c_light) (freq (results g)))))
          (sigmak (results r)) = Inr (klossZ (results r))"
  using assms by (auto simp: calc_loss_factor_def Let_def bindE_Inr_iff split: if_splits)

lemma calc_loss_factor_Plossvec:
  assumes "calc_loss_factor g = Inr r"
  shows "\<exists>kZvec. mapE (kfactor (ReZlong (results g)) (map (\<lambda>f. (f * 2 * pi) / c_light) (freq (results g)))
            (map (\<lambda>x. x ^ 2) (map (\<lambda>f. (f * 2 * pi) / c_light) (freq (results g))))) sigvec = Inr kZvec
       \<and> Plossvec (results r) =
           map2 (\<lambda>kz I. kz * I ^ 2 * (2 * pi / omega0 (ringpar g)) * 10 ^ 12 / real_of_int (h (ringpar g)))
             kZvec Ivec"
  using assms by (auto simp: calc_loss_factor_def Let_def bindE_Inr_iff split: if_splits)

lemma calc_kick_factor_kickZ:
  assumes "calc_kick_factor g = Inr r"
  shows "mapE (kfactor (ImZt (results g)) (map (\<lambda>f. (f * 2 * pi) / c_light) (freq (results g)))
            (map (\<lambda>x. x ^ 2) (map (\<lambda>f. (f * 2 * pi) / c_light) (freq (results g)))))
          (sigmak (results r)) = Inr (kickZ (results r))"
  using assms by (auto simp: calc_kick_factor_def Let_def bindE_Inr_iff comp_def split: if_splits)

lemma klossZ_nth:
  assumes "calc_loss_factor g = Inr r"
    and "length (ReZlong (results g)) = length (freq (results g))"
    and "i < 100"
  shows "klossZ (results r) ! i =
         factor_omega (freq (results g)) (ReZlong (results g)) (sigmak (results r) ! i)"
proof -
  have "length (sigmak (results r)) = 100"
    using calc_loss_factor_sigmak [OF assms(1)] by (simp add: length_linspace)
  with mapE_nth [OF calc_loss_factor_klossZ [OF assms(1)]] assms(3)
  have "kfactor (ReZlong (results g)) (map (\<lambda>f. (f * 2 * pi) / c_light) (freq (results g)))
            (map (\<lambda>x. x ^ 2) (map (\<lambda>f. (f * 2 * pi) / c_light) (freq (results g))))
            (sigmak (results r) ! i) = Inr (klossZ (results r) ! i)"
    by simp
  then show ?thesis using kfactor_eq_factor_omega [OF assms(2)] by simp
qed

lemma kickZ_nth:
  assumes "calc_kick_factor g = Inr r"
    and "length (ImZt (results g)) = length (freq (results g))"
    and "i < 100"
  shows "kickZ (results r) ! i =
         factor_omega (freq (results g)) (ImZt (results g)) (sigmak (results r) ! i)"
proof -
  have "length (sigmak (results r)) = 100"
    using calc_kick_factor_sigmak [OF assms(1)] by (simp add: length_linspace)
  with mapE_nth [OF calc_kick_factor_kickZ [OF assms(1)]] assms(3)
  have "kfactor (ImZt (results g)) (map (\<lambda>f. (f * 2 * pi) / c_light) (freq (results g)))
            (map (\<lambda>x. x ^ 2) (map (\<lambda>f. (f * 2 * pi) / c_light) (freq (results g))))
            (sigmak (results r) ! i) = Inr (kickZ (results r) ! i)"
    by simp
  then show ?thesis using kfactor_eq_factor_omega [OF assms(2)] by simp
qed

lemma Plossvec_nth:
  assumes "calc_loss_factor g = Inr r"
    and "length (ReZlong (results g)) = length (freq (results g))"
  shows "length (Plossvec (results r)) = 6"
    and "i < 6 \<Longrightarrow> Plossvec (results r) ! i =
         factor_omega (freq (results g)) (ReZlong (results g)) (sigvec ! i) * (Ivec ! i) ^ 2 *
           (2 * pi / omega0 (ringpar g)) * 10 ^ 12 / real_of_int (h (ringpar g))"
proof -
  from calc_loss_factor_Plossvec [OF assms(1)] obtain kZvec where
    kz: "mapE (kfactor (ReZlong (results g)) (map (\<lambda>f. (f * 2 * pi) / c_light) (freq (results g)))
            (map (\<lambda>x. x ^ 2) (map (\<lambda>f. (f * 2 * pi) / c_light) (freq (results g))))) sigvec = Inr kZvec"
    and pl: "Plossvec (results r) =
           map2 (\<lambda>kz I. kz * I ^ 2 * (2 * pi / omega0 (ringpar g)) * 10 ^ 12 / real_of_int (h (ringpar g)))
             kZvec Ivec"
    by blast
  have len: "length kZvec = 6" using mapE_nth [OF kz] by (simp add: sigvec_def)
  then show "length (Plossvec (results r)) = 6" by (simp add: pl Ivec_def)
  assume i: "i < 6"
  then have "kfactor (ReZlong (results g)) (map (\<lambda>f. (f * 2 * pi) / c_light) (freq (results g)))
            (map (\<lambda>x. x ^ 2) (map (\<lambda>f. (f * 2 * pi) / c_light) (freq (results g))))
            (sigvec ! i) = Inr (kZvec ! i)"
    using mapE_nth [OF kz] by (simp add: sigvec_def)
  then have "kZvec ! i = factor_omega (freq (results g)) (ReZlong (results g)) (sigvec ! i)"
    using kfactor_eq_factor_omega [OF assms(2)] by simp
  then show "Plossvec (results r) ! i =
         factor_omega (freq (results g)) (ReZlong (results g)) (sigvec ! i) * (Ivec ! i) ^ 2 *
           (2 * pi / omega0 (ringpar g)) * 10 ^ 12 / real_of_int (h (ringpar g))"
    using i len by (simp add: pl Ivec_def)
qed

lemma calc_kick_factor_returns:
  assumes "length (ImZt (results g)) = length (freq (results g))"
    and "length (W (results g)) = length (s (results g))"
  shows "\<exists>r. calc_kick_factor g = Inr r"
proof -
  let ?k = "map (\<lambda>x. x / c_light) (map (\<lambda>f. f * 2 * pi) (freq (results g)))"
  let ?ksq = "map (\<lambda>x. x ^ 2) ?k"
  have kf: "\<exists>t. kfactor (ImZt (results g)) ?k ?ksq sg = Inr t" for sg
    using assms by (intro kfactor_Inr) simp_all
  obtain a where a: "mapE (kfactor (ImZt (results g)) ?k ?ksq)
      (linspace (bunlen (simpar g)) (sigmamax (ringpar g)) 100) = Inr a"
    using mapE_Inr [of _ "kfactor (ImZt (results g)) ?k ?ksq"] kf by blast
  obtain b where b: "kfactor (ImZt (results g)) ?k ?ksq (bunlen (simpar g)) = Inr b"
    using kf by blast
  obtain kW where kW: "kwake (W (results g)) (s (results g)) (bunlen (simpar g)) = Inr kW"
    using kwake_Inr assms(2) by blast
  show ?thesis unfolding calc_kick_factor_def Let_def a b kW bindE_def by simp
qed

lemma factor_omega_example: "factor_omega [-1, 0, 1] [0, 1, 0] sg = 1 / 10 ^ 12"
  by (simp add: factor_omega_def trapezoid_def Let_def upt_rec numeral_2_eq_2)

lemma factor_claimed_example: "factor_claimed [-1, 0, 1] [0, 1, 0] sg = c_light / 10 ^ 12"
  by (simp add: factor_claimed_def trapezoid_def Let_def upt_rec numeral_2_eq_2)

lemma omega0_init_nonzero: "omega0 Ringpar_init \<noteq> 0"
  by (simp add: Ringpar_init_def)

lemma g_loss_returns: "\<exists>r. calc_loss_factor g_loss = Inr r"
  using calc_loss_factor_returns [of g_loss] omega0_init_nonzero
  by (auto simp: g_loss_def GlobData_init_def Results_init_def)

lemma g_kick_returns: "\<exists>r. calc_kick_factor g_kick = Inr r"
  using calc_kick_factor_returns [of g_kick]
  by (auto simp: g_kick_def GlobData_init_def Results_init_def)

lemma length_hanning: "length (hanning M) = M"
  by (simp add: hanning_def)

lemma length_window: "length (window N) = N"
  by (simp add: window_def length_hanning)

lemma nth_window:
  assumes "i < N"
  shows "window N ! i = 1 / 2 - 1 / 2 * cos (2 * pi * real (N - 1 + i) / real (2 * N - 1))"
proof -
  have "N - 1 + i < 2 * N - 1" using assms by simp
  then have "window N ! i = hanning (2 * N) ! (N - 1 + i)"
    by (simp add: window_def length_hanning nth_butlast)
  also have "\<dots> = 1 / 2 - 1 / 2 * cos (2 * pi * real (N - 1 + i) / real (2 * N - 1))"
    using assms by (simp add: hanning_def)
  finally show ?thesis .
qed

lemma cos_mono_pi_2pi:
  assumes "pi \<le> a" "a \<le> b" "b \<le> 2 * pi"
  shows "cos a \<le> cos b"
proof -
  have "cos (b - pi) \<le> cos (a - pi)"
    using assms by (intro cos_monotone_0_pi_le) simp_all
  then show ?thesis by (simp add: cos_diff)
qed

lemma hanning_angle_reflect:
  assumes "0 < N"
  shows "cos (2 * pi * real (N - 1) / real (2 * N - 1)) = cos (2 * pi * real N / real (2 * N - 1))"
proof -
  have "2 * pi * real (N - 1) / real (2 * N - 1) = 2 * pi - 2 * pi * real N / real (2 * N - 1)"
    using assms by (simp add: field_simps of_nat_diff)
  then show ?thesis by (simp add: cos_diff)
qed

lemma window_cos_mono:
  assumes "i \<le> j" "j < N"
  shows "cos (2 * pi * real (N - 1 + i) / real (2 * N - 1))
       \<le> cos (2 * pi * real (N - 1 + j) / real (2 * N - 1))"
proof -
  have N: "0 < N" using assms by simp
  have pos: "0 < real (2 * N - 1)" using N by simp
  have up: "cos (2 * pi * real a / real (2 * N - 1)) \<le> cos (2 * pi * real b / real (2 * N - 1))"
    if "N \<le> a" "a \<le> b" "b \<le> 2 * N - 1" for a b
  proof (rule cos_mono_pi_2pi)
    have "real (2 * N - 1) \<le> 2 * real a" using that N by (simp add: of_nat_diff)
    then have "pi * real (2 * N - 1) \<le> pi * (2 * real a)"
      by (intro mult_left_mono) simp_all
    then show "pi \<le> 2 * pi * real a / real (2 * N - 1)"
      using pos by (simp add: pos_le_divide_eq mult_ac)
    show "2 * pi * real a / real (2 * N - 1) \<le> 2 * pi * real b / real (2 * N - 1)"
      using that pos by (simp add: divide_right_mono)
    have "real b \<le> real (2 * N - 1)" using that by simp
    then have "2 * pi * real b \<le> 2 * pi * real (2 * N - 1)"
      by (intro mult_left_mono) simp_all
    then show "2 * pi * real b / real (2 * N - 1) \<le> 2 * pi"
      using pos by (simp add: pos_divide_le_eq)
  qed
  show ?thesis
  proof (cases "i = 0")
    case False
    then show ?thesis using assms by (intro up) simp_all
  next
    case True
    show ?thesis
    proof (cases "j = 0")
      case True
      with \<open>i = 0\<close> show ?thesis by simp
    next
      case False
      have "cos (2 * pi * real N / real (2 * N - 1))
            \<le> cos (2 * pi * real (N - 1 + j) / real (2 * N - 1))"
        using assms False by (intro up) simp_all
      then show ?thesis using \<open>i = 0\<close> hanning_angle_reflect [OF N] by simp
    qed
  qed
qed

lemma window_decreasing:
  assumes "i \<le> j" "j < N"
  shows "window N ! j \<le> window N ! i"
  using window_cos_mono [OF assms] assms by (simp add: nth_window)

lemma window3_values:
  "window 3 ! 1 = 1 / 2 - 1 / 2 * cos (6 * pi / 5)" "window 3 ! 2 = 1 / 2 - 1 / 2 * cos (8 * pi / 5)"
  by (simp_all add: nth_window)

lemma window3_drop: "window 3 ! 2 < window 3 ! 1"
proof -
  have a: "cos (6 * pi / 5) = - cos (pi / 5)"
  proof -
    have "6 * pi / 5 = pi / 5 + pi" by simp
    then show ?thesis by (simp only: cos_periodic_pi)
  qed
  have b: "cos (8 * pi / 5) = cos (2 * pi / 5)"
  proof -
    have "8 * pi / 5 = 2 * pi - 2 * pi / 5" by simp
    then have "cos (8 * pi / 5) = cos (2 * pi - 2 * pi / 5)" by simp
    also have "\<dots> = cos (2 * pi / 5)" by (simp only: cos_diff) simp
    finally show ?thesis .
  qed
  have "0 < cos (pi / 5)" by (intro cos_gt_zero_pi) (simp_all add: field_simps)
  moreover have "0 < cos (2 * pi / 5)" by (intro cos_gt_zero_pi) (simp_all add: field_simps)
  ultimately show ?thesis unfolding window3_values a b by simp
qed

lemma bool_index_map: "bool_index xs (map P xs) = filter P xs"
  by (induction xs) (simp_all add: bool_index_def)

lemma bool_index_False: "bool_index xs (map (\<lambda>x. False) ys) = []"
  by (auto simp: bool_index_def filter_empty_conv dest: set_zip_rightD)

lemma fft_Inr: "fft a = Inr b \<Longrightarrow> a \<noteq> [] \<and> length b = length a"
  by (auto simp: fft_def Let_def split: if_splits)

lemma calc_impedance_Inr:
  assumes "calc_impedance g = Inr r"
  shows "s (results g) \<noteq> [] \<and> W (results g) \<noteq> [] \<and> bunlen (simpar g) \<noteq> 0"
  using assms
  by (auto simp: calc_impedance_def Let_def bindE_Inr_iff c_light_def length_window
      dest!: fft_Inr split: if_splits)

lemma calc_impedance_freq:
  assumes "calc_impedance g = Inr r" and "0 \<le> m (simpar g)"
  shows "freq (results r) = retained g"
  using assms
  by (auto simp: calc_impedance_def Let_def bindE_Inr_iff retained_def freq_axis_def
      bool_index_False bool_index_map comp_def split: if_splits)

lemma length_fftfreq: "0 < n \<Longrightarrow> length (fftfreq n d) = n"
  by (simp add: fftfreq_def)

lemma length_roll: "length (roll a k) = length a"
  by (simp add: roll_def Let_def)

lemma length_bool_index_map:
  "length ys = length xs \<Longrightarrow> length (bool_index ys (map P xs)) = length (filter P xs)"
  by (induction ys xs rule: list_induct2) (simp_all add: bool_index_def)

lemma select_quotients:
  "length ys = length xs \<Longrightarrow>
   map2 (\<lambda>z n. z / n) (bool_index ys (map P xs)) (map q (bool_index xs (map P xs)))
   = map (\<lambda>p. snd p / q (fst p)) (filter (\<lambda>p. P (fst p)) (zip xs ys))"
  by (induction ys xs rule: list_induct2) (simp_all add: bool_index_def)

lemma calc_impedance_returns:
  assumes "s (results g) \<noteq> []" "W (results g) \<noteq> []" "bunlen (simpar g) \<noteq> 0"
  shows "\<exists>r. calc_impedance g = Inr r"
proof -
  have "map2 (\<lambda>u v. complex_of_real (u * v)) (map (\<lambda>x. x * 10 ^ 12) (W (results g)))
          (window (length (W (results g)))) \<noteq> []"
    using assms(2) by (simp add: length_window flip: length_greater_0_conv)
  then have "length (map2 (\<lambda>u v. complex_of_real (u * v))
          (map (\<lambda>x. x * 10 ^ 12) (W (results g))) (window (length (W (results g))))) \<noteq> 0"
    by (simp only: length_0_conv not_False_eq_True)
  then obtain v where v: "fft (map2 (\<lambda>u v. complex_of_real (u * v))
          (map (\<lambda>x. x * 10 ^ 12) (W (results g))) (window (length (W (results g))))) = Inr v"
    unfolding fft_def Let_def by (simp only: if_False)
  have "bunlen (simpar g) / c_light \<noteq> 0" using assms(3) by (simp add: c_light_def)
  then show ?thesis
    using assms(1) v by (simp add: calc_impedance_def Let_def bindE_def)
qed

lemma calc_impedance_lengths:
  assumes "calc_impedance g = Inr r"
  shows "(m (simpar g) = 0 \<longrightarrow> length (ReZlong (results r)) = length (freq (results r)) \<and>
            length (ImZlong (results r)) = length (freq (results r))) \<and>
         (0 < m (simpar g) \<longrightarrow> length (ReZt (results r)) = length (freq (results r)) \<and>
            length (ImZt (results r)) = length (freq (results r)))"
proof -
  have W: "0 < length (W (results g))" using calc_impedance_Inr [OF assms] by simp
  show ?thesis
    using assms W
    by (auto simp: calc_impedance_def Let_def bindE_Inr_iff length_fftfreq length_roll
        length_window length_bool_index_map bool_index_False
        dest!: fft_Inr split: if_splits)
qed

lemma calc_impedance_naxis:
  assumes "calc_impedance g = Inr r" and "m (simpar g) = 0"
  shows "naxis (results r) =
           naxis_over (20 * 10 ^ 9) (omega0 (ringpar g) / (2 * pi)) (freq (results r))"
    and "ImZoN (results r) =
           ImZoN_over (20 * 10 ^ 9) (omega0 (ringpar g) / (2 * pi)) (freq (results r))
             (ImZlong (results r))"
proof -
  let ?P = "\<lambda>f. 2 * pi * \<bar>f\<bar> < 20 * 10 ^ 9 \<and> f \<noteq> 0"
  have P: "?P = zn_select (20 * 10 ^ 9)"
    by (rule ext) (simp add: zn_select_def abs_mult)
  have len: "length (ImZlong (results r)) = length (freq (results r))"
    using calc_impedance_lengths [OF assms(1)] assms(2) by simp
  have nax: "naxis (results r) =
      map (\<lambda>f. f / (omega0 (ringpar g) / (2 * pi)))
        (bool_index (freq (results r)) (map ?P (freq (results r))))"
    and zn: "ImZoN (results r) =
      map2 (\<lambda>z n. z / n) (bool_index (ImZlong (results r)) (map ?P (freq (results r))))
        (map (\<lambda>f. f / (omega0 (ringpar g) / (2 * pi)))
          (bool_index (freq (results r)) (map ?P (freq (results r)))))"
    using assms by (auto simp: calc_impedance_def Let_def bindE_Inr_iff split: if_splits)
  show "naxis (results r) =
           naxis_over (20 * 10 ^ 9) (omega0 (ringpar g) / (2 * pi)) (freq (results r))"
    unfolding nax naxis_over_def bool_index_map P ..
  show "ImZoN (results r) =
           ImZoN_over (20 * 10 ^ 9) (omega0 (ringpar g) / (2 * pi)) (freq (results r))
             (ImZlong (results r))"
    unfolding zn ImZoN_over_def select_quotients [OF len] P ..
qed

lemma freq_axis_g_imp: "freq_axis g_imp = [- (5 * 10 ^ 9), 0]"
  by (simp add: freq_axis_def g_imp_def GlobData_init_def Results_init_def fftfreq_def
      roll_def c_light_def Let_def upt_rec)

lemma freq_axis_g_imp_low: "freq_axis g_imp_low = [- (5 * 10 ^ 8), 0]"
  by (simp add: freq_axis_def g_imp_low_def GlobData_init_def Results_init_def fftfreq_def
      roll_def c_light_def Let_def upt_rec)

lemma retained_g_imp: "retained g_imp = [- (5 * 10 ^ 9), 0]"
proof -
  have deg: "\<not> (length (s (results g_imp)) = 1 \<or> last (s (results g_imp)) = hd (s (results g_imp)))"
    by (simp add: g_imp_def GlobData_init_def Results_init_def)
  have le: "\<bar>2 * pi * - (5 * 10 ^ 9)\<bar> \<le> cutoff (simpar g_imp) / (bunlen (simpar g_imp) / c_light)"
    using pi_less_4 by (simp add: g_imp_def GlobData_init_def Simpar_init_def c_light_def)
  have z: "\<bar>2 * pi * 0\<bar> \<le> cutoff (simpar g_imp) / (bunlen (simpar g_imp) / c_light)"
    by (simp add: g_imp_def GlobData_init_def Simpar_init_def c_light_def)
  show ?thesis
    unfolding retained_def freq_axis_g_imp using deg le z by simp
qed

lemma retained_g_imp_low: "retained g_imp_low = [- (5 * 10 ^ 8), 0]"
proof -
  have deg: "\<not> (length (s (results g_imp_low)) = 1 \<or>
      last (s (results g_imp_low)) = hd (s (results g_imp_low)))"
    by (simp add: g_imp_low_def GlobData_init_def Results_init_def)
  have le: "\<bar>2 * pi * - (5 * 10 ^ 8)\<bar>
      \<le> cutoff (simpar g_imp_low) / (bunlen (simpar g_imp_low) / c_light)"
    using pi_less_4 by (simp add: g_imp_low_def GlobData_init_def Simpar_init_def c_light_def)
  have z: "\<bar>2 * pi * 0\<bar> \<le> cutoff (simpar g_imp_low) / (bunlen (simpar g_imp_low) / c_light)"
    by (simp add: g_imp_low_def GlobData_init_def Simpar_init_def c_light_def)
  show ?thesis
    unfolding retained_def freq_axis_g_imp_low using deg le z by simp
qed

lemma g_imp_returns: "\<exists>r. calc_impedance g_imp = Inr r"
  by (rule calc_impedance_returns)
     (simp_all add: g_imp_def GlobData_init_def Results_init_def Simpar_init_def)

lemma g_imp_low_returns: "\<exists>r. calc_impedance g_imp_low = Inr r"
  by (rule calc_impedance_returns)
     (simp_all add: g_imp_low_def GlobData_init_def Results_init_def Simpar_init_def)

lemma m_g_imp: "m (simpar g_imp) = 0" "m (simpar g_imp_low) = 0"
  by (simp_all add: g_imp_def g_imp_low_def GlobData_init_def Simpar_init_def)

lemma naxis_over_low:
  "naxis_over (20 * 10 ^ 9) f0 [- (5 * 10 ^ 8), 0] = [- (5 * 10 ^ 8) / f0]"
  using pi_less_4 by (simp add: naxis_over_def zn_select_def)

lemma ImZoN_over_low:
  "ImZoN_over (20 * 10 ^ 9) f0 [- (5 * 10 ^ 8), 0] [a, b] = [a / (- (5 * 10 ^ 8) / f0)]"
  using pi_less_4 by (simp add: ImZoN_over_def zn_select_def)

lemma naxis_over_high: "naxis_over (20 * 10 ^ 9) f0 [- (5 * 10 ^ 9), 0] = []"
  using pi_ge_two by (simp add: naxis_over_def zn_select_def)

lemma naxis_over_high_claimed:
  "naxis_over (2 * pi * (20 * 10 ^ 9)) f0 [- (5 * 10 ^ 9), 0] = [- (5 * 10 ^ 9) / f0]"
  by (simp add: naxis_over_def zn_select_def)

lemma startswith_Cons: "startswith str (ch # p) \<Longrightarrow> \<exists>r. str = ch # r"
  by (cases str) (simp_all add: startswith_def)

lemma source_tags:
  "startswith d ''ACE3P'' \<Longrightarrow> \<not> startswith d ''GdfidL''"
  "startswith d ''CST'' \<Longrightarrow> \<not> startswith d ''ACE3P'' \<and> \<not> startswith d ''GdfidL''"
  "startswith d ''ECHO'' \<Longrightarrow>
     \<not> startswith d ''ACE3P'' \<and> \<not> startswith d ''GdfidL'' \<and> \<not> startswith d ''CST''"
  "startswith d ''GdfidL'' \<Longrightarrow>
     \<not> startswith d ''ACE3P'' \<and> \<not> startswith d ''CST'' \<and> \<not> startswith d ''ECHO''"
  by (auto dest!: startswith_Cons)

lemma column_Inr:
  "2 \<le> length t \<Longrightarrow> 2 \<le> length (hd t) \<Longrightarrow> j < 2 \<Longrightarrow> column t j = Inr (map (\<lambda>r. r ! j) t)"
  by (simp add: column_def)

lemma copy2_error: "copy2 fs src dst = Inl e \<Longrightarrow> e = OSError"
  by (auto simp: copy2_def split: option.splits)

lemma copy2_keeps_files:
  "copy2 fs src dst = Inr fs1 \<Longrightarrow> files fs path = Some f \<Longrightarrow> \<exists>f1. files fs1 path = Some f1"
  by (auto simp: copy2_def split: option.splits)

lemma read_single:
  assumes "\<not> startswith dsrc ''GdfidL''"
    and "wakepath0 p = Some wp" "headerL p = Some hl"
    and "loadtxt fs wp hl = Inr t" "2 \<le> length t" "2 \<le> length (hd t)"
  shows "read_files fs cp tardir dsrc mm sy whaxis p =
           bindE (copy_if cp fs wp tardir) (\<lambda>fs1.
             Inr (fs1, map (\<lambda>r. r ! 0) t,
                  if mm = 0 then map (\<lambda>r. - (r ! 1)) t else map (\<lambda>r. r ! 1) t))"
proof -
  have c0: "column t 0 = Inr (map (\<lambda>r. r ! 0) t)"
    and c1: "column t (Suc 0) = Inr (map (\<lambda>r. r ! Suc 0) t)"
    using assms(5,6) by (simp_all add: column_Inr)
  show ?thesis
    using assms(1-4)
    by (auto simp: read_files_def local_var_def bindE_def c0 c1 comp_def split: sum.splits)
qed

lemma load_wake_ACE3P:
  assumes "startswith (datasource (simpar g)) ''ACE3P''"
    and "loadtxt fs (path_join [wakepath (simpar g), ''wakefield.out'']) 3 = Inr t"
    and "2 \<le> length t" "2 \<le> length (hd t)"
  shows "load_wake fs g =
           Inl (if \<not> startswith (wakepath (simpar g)) (targetdir (simpar g)) \<and>
                   isl (copy2 fs (path_join [wakepath (simpar g), ''wakefield.out''])
                          (targetdir (simpar g)))
                then OSError else AttributeError)"
proof -
  have p: "set_paths (datasource (simpar g)) (m (simpar g)) (sym (simpar g))
             (whichaxis (simpar g)) (wakepath (simpar g)) =
           no_paths\<lparr>wakepath0 := Some (path_join [wakepath (simpar g), ''wakefield.out'']),
                    headerL := Some 3\<rparr>"
    using assms(1) by (simp add: set_paths_def)
  show ?thesis
    unfolding load_wake_def Let_def p
    using assms source_tags(1) [OF assms(1)]
    by (subst read_single [where t = t])
       (auto simp: bindE_def copy_if_def split: sum.splits dest: copy2_error)
qed

lemma load_wake_CST:
  assumes "startswith (datasource (simpar g)) ''CST''" and "0 \<le> m (simpar g)"
    and "loadtxt fs (path_join [wakepath (simpar g), ''wake.txt'']) 2 = Inr t"
    and "2 \<le> length t" "2 \<le> length (hd t)"
  shows "load_wake fs g =
           (if startswith (wakepath (simpar g)) (targetdir (simpar g)) then
              Inr (fs, g\<lparr>results := (results g)
                \<lparr>W := map (\<lambda>r. - (r ! 1)) t, s := map (\<lambda>r. r ! 0 / 1000) t\<rparr>\<rparr>)
            else
              (case copy2 fs (path_join [wakepath (simpar g), ''wake.txt''])
                      (targetdir (simpar g)) of
                 Inl e \<Rightarrow> Inl e
               | Inr fs1 \<Rightarrow> Inr (fs1, g\<lparr>results := (results g)
                   \<lparr>W := map (\<lambda>r. - (r ! 1)) t, s := map (\<lambda>r. r ! 0 / 1000) t\<rparr>\<rparr>)))"
proof -
  have p: "set_paths (datasource (simpar g)) (m (simpar g)) (sym (simpar g))
             (whichaxis (simpar g)) (wakepath (simpar g)) =
           no_paths\<lparr>wakepath0 := Some (path_join [wakepath (simpar g), ''wake.txt'']),
                    headerL := Some 2\<rparr>"
    using assms(1) source_tags(2) [OF assms(1)] by (simp add: set_paths_def)
  show ?thesis
    unfolding load_wake_def Let_def p
    using assms source_tags(2) [OF assms(1)]
    by (subst read_single [where t = t])
       (auto simp: bindE_def comp_def copy_if_def split: sum.splits)
qed

lemma load_wake_ECHO:
  assumes "startswith (datasource (simpar g)) ''ECHO''" and "m (simpar g) = 0"
    and "loadtxt fs (path_join [wakepath (simpar g), ''wake.dat'']) 0 = Inr t"
    and "2 \<le> length t" "2 \<le> length (hd t)"
  shows "load_wake fs g =
           (if startswith (wakepath (simpar g)) (targetdir (simpar g)) then
              Inr (fs, g\<lparr>results := (results g)
                \<lparr>W := map (\<lambda>r. - (r ! 1)) t, s := map (\<lambda>r. r ! 0 / 100) t\<rparr>\<rparr>)
            else
              (case copy2 fs (path_join [wakepath (simpar g), ''wake.dat''])
                      (targetdir (simpar g)) of
                 Inl e \<Rightarrow> Inl e
               | Inr fs1 \<Rightarrow> Inr (fs1, g\<lparr>results := (results g)
                   \<lparr>W := map (\<lambda>r. - (r ! 1)) t, s := map (\<lambda>r. r ! 0 / 100) t\<rparr>\<rparr>)))"
proof -
  have p: "set_paths (datasource (simpar g)) (m (simpar g)) (sym (simpar g))
             (whichaxis (simpar g)) (wakepath (simpar g)) =
           no_paths\<lparr>wakepath0 := Some (path_join [wakepath (simpar g), ''wake.dat'']),
                    headerL := Some 0\<rparr>"
    using assms(1,2) source_tags(3) [OF assms(1)] by (simp add: set_paths_def)
  show ?thesis
    unfolding load_wake_def Let_def p
    using assms source_tags(3) [OF assms(1)]
    by (subst read_single [where t = t])
       (auto simp: bindE_def comp_def copy_if_def split: sum.splits)
qed

lemma read_dipole:
  assumes "startswith dsrc ''GdfidL''" and "sy \<noteq> 0"
    and "headerL p = Some hl" "wakepath1 p = Some wp1" "wakepath2 p = Some wp2"
    and "shiftpath p = Some sp"
    and "loadtxt fs wp1 hl = Inr t1" "loadtxt fs wp2 hl = Inr t2"
    and "2 \<le> length t1" "2 \<le> length (hd t1)" "2 \<le> length (hd t2)" "length t2 = length t1"
    and "files fs sp = Some f"
  shows "read_files fs cp tardir dsrc 1 sy whaxis p =
           Inl (if cp \<and> isl (copy_all fs [wp1, wp2, sp] tardir) then OSError else NameError)"
proof (cases cp)
  case False
  then show ?thesis
    using assms
    by (simp add: read_files_def local_var_def bindE_def column_Inr half_sum_def bcast2_def
        third_line_def textscan_def copy_if_def)
next
  case True
  show ?thesis
  proof (cases "copy2 fs wp1 tardir")
    case (Inl e)
    then show ?thesis
      using assms True copy2_error [OF Inl]
      by (simp add: read_files_def local_var_def bindE_def copy_if_def)
  next
    case fs1: (Inr fs1)
    obtain f1 where f1: "files fs1 sp = Some f1"
      using copy2_keeps_files [OF fs1 assms(13)] by blast
    show ?thesis
    proof (cases "copy2 fs1 wp2 tardir")
      case (Inl e)
      then show ?thesis
        using assms True fs1 copy2_error [OF Inl]
        by (simp add: read_files_def local_var_def bindE_def copy_if_def)
    next
      case fs2: (Inr fs2)
      obtain f2 where f2: "files fs2 sp = Some f2"
        using copy2_keeps_files [OF fs2 f1] by blast
      show ?thesis
      proof (cases "copy2 fs2 sp tardir")
        case (Inl e)
        then show ?thesis
          using assms True fs1 fs2 f2 copy2_error [OF Inl]
          by (simp add: read_files_def local_var_def bindE_def column_Inr half_sum_def
              bcast2_def third_line_def copy_if_def)
      next
        case (Inr fs3)
        then show ?thesis
          using assms True fs1 fs2 f2
          by (simp add: read_files_def local_var_def bindE_def column_Inr half_sum_def
              bcast2_def third_line_def textscan_def copy_if_def)
      qed
    qed
  qed
qed

lemma load_wake_read_error:
  assumes "read_files fs (\<not> startswith (wakepath (simpar g)) (targetdir (simpar g)))
             (targetdir (simpar g)) (datasource (simpar g)) (m (simpar g)) (sym (simpar g))
             (whichaxis (simpar g))
             (set_paths (datasource (simpar g)) (m (simpar g)) (sym (simpar g))
                (whichaxis (simpar g)) (wakepath (simpar g))) = Inl e"
  shows "load_wake fs g = Inl e"
  using assms by (simp add: load_wake_def Let_def bindE_def)

lemma load_wake_GdfidL_dipole:
  assumes "startswith (datasource (simpar g)) ''GdfidL''" and "m (simpar g) = 1"
    and "sym (simpar g) \<noteq> 0"
    and "loadtxt fs (path_join [wakepath (simpar g),
            ''Results-W'' @ upper (whichaxis (simpar g)) @ ''_AT_XY.0001'']) 11 = Inr t1"
    and "loadtxt fs (path_join [wakepath (simpar g),
            ''Results-W'' @ upper (whichaxis (simpar g)) @ ''_AT_XY.0002'']) 11 = Inr t2"
    and "2 \<le> length t1" "2 \<le> length (hd t1)" "2 \<le> length (hd t2)" "length t2 = length t1"
    and "files fs (path_join [wakepath (simpar g), ''Results-Wq_AT_XY.0001'']) = Some f"
  shows "load_wake fs g =
           Inl (if \<not> startswith (wakepath (simpar g)) (targetdir (simpar g)) \<and>
                   isl (copy_all fs
                     [path_join [wakepath (simpar g),
                        ''Results-W'' @ upper (whichaxis (simpar g)) @ ''_AT_XY.0001''],
                      path_join [wakepath (simpar g),
                        ''Results-W'' @ upper (whichaxis (simpar g)) @ ''_AT_XY.0002''],
                      path_join [wakepath (simpar g), ''Results-Wq_AT_XY.0001'']]
                     (targetdir (simpar g)))
                then OSError else NameError)"
proof -
  let ?p = "no_paths\<lparr>headerL := Some 11,
             shiftpath := Some (path_join [wakepath (simpar g), ''Results-Wq_AT_XY.0001'']),
             wakepath1 := Some (path_join [wakepath (simpar g),
                ''Results-W'' @ upper (whichaxis (simpar g)) @ ''_AT_XY.0001'']),
             wakepath2 := Some (path_join [wakepath (simpar g),
                ''Results-W'' @ upper (whichaxis (simpar g)) @ ''_AT_XY.0002''])\<rparr>"
  have p: "set_paths (datasource (simpar g)) 1 (sym (simpar g))
             (whichaxis (simpar g)) (wakepath (simpar g)) = ?p"
    using assms(1,3) source_tags(4) [OF assms(1)] by (simp add: set_paths_def)
  have rd: "read_files fs (\<not> startswith (wakepath (simpar g)) (targetdir (simpar g)))
          (targetdir (simpar g)) (datasource (simpar g)) 1 (sym (simpar g))
          (whichaxis (simpar g)) ?p =
        Inl (if \<not> startswith (wakepath (simpar g)) (targetdir (simpar g)) \<and>
                isl (copy_all fs
                  [path_join [wakepath (simpar g),
                     ''Results-W'' @ upper (whichaxis (simpar g)) @ ''_AT_XY.0001''],
                   path_join [wakepath (simpar g),
                     ''Results-W'' @ upper (whichaxis (simpar g)) @ ''_AT_XY.0002''],
                   path_join [wakepath (simpar g), ''Results-Wq_AT_XY.0001'']]
                  (targetdir (simpar g)))
             then OSError else NameError)"
    by (rule read_dipole [where dsrc = "datasource (simpar g)" and sy = "sym (simpar g)"
          and p = ?p and hl = 11 and fs = fs and ?t1.0 = t1 and ?t2.0 = t2 and f = f
          and ?wp1.0 = "path_join [wakepath (simpar g),
                ''Results-W'' @ upper (whichaxis (simpar g)) @ ''_AT_XY.0001'']"
          and ?wp2.0 = "path_join [wakepath (simpar g),
                ''Results-W'' @ upper (whichaxis (simpar g)) @ ''_AT_XY.0002'']"
          and sp = "path_join [wakepath (simpar g), ''Results-Wq_AT_XY.0001'']"])
       (use assms in simp_all)
  show ?thesis
    by (rule load_wake_read_error) (simp only: assms(2) p rd)
qed

lemma bindE_fails: "(\<And>v. \<exists>e. f v = Inl e) \<Longrightarrow> \<exists>e. bindE x f = Inl e"
  by (cases x) (auto simp: bindE_def)

lemma bindE_fails_arg: "\<exists>e. x = Inl e \<Longrightarrow> \<exists>e. bindE x f = Inl e"
  by (auto simp: bindE_def)

lemma textscan_fails: "\<exists>e. bindE (textscan l fmt) f = Inl e"
  by (simp add: textscan_def bindE_def)

lemma read_files_GdfidL_fails:
  assumes "startswith dsrc ''GdfidL''"
  shows "\<exists>e. read_files fs cp tardir dsrc mm sy whaxis p = Inl e"
proof -
  consider "mm = 1" | "mm = 2" | "mm \<noteq> 1 \<and> mm \<noteq> 2" by blast
  then show ?thesis
  proof cases
    case 1
    show ?thesis
      unfolding read_files_def using assms 1
      by (simp only: not_True_eq_False if_False if_True one_neq_zero refl)
         (intro bindE_fails textscan_fails | simp only: split_paired_all prod.case)+
  next
    case 2
    have sh: "\<exists>e. (if startswith whaxis ''x'' then
                 bindE (textscan l (fmt_quad ''x'')) (\<lambda>coord. index coord 1)
               else if startswith whaxis ''y'' then
                 bindE (textscan l (fmt_quad ''y'')) (\<lambda>coord. index coord 2)
               else Inl UnboundLocalError) = Inl e" for l
      by (simp add: textscan_def bindE_def)
    show ?thesis
      unfolding read_files_def using assms 2
      by (simp only: not_True_eq_False if_False if_True refl)
         (simp, (intro bindE_fails bindE_fails_arg sh | simp only: split_paired_all prod.case)+)
  next
    case 3
    then show ?thesis using assms by (simp add: read_files_def)
  qed
qed

lemma load_wake_GdfidL_fails:
  assumes "startswith (datasource (simpar g)) ''GdfidL''"
  shows "\<exists>e. load_wake fs g = Inl e"
  using read_files_GdfidL_fails [OF assms] load_wake_read_error [of fs g] by blast

lemma fs_example_tables:
  "loadtxt fs_example ''w/wakefield.out'' 3 = Inr [[0, 1], [1, 3]]"
  "loadtxt fs_example ''w/wake.txt'' 2 = Inr [[0, 1], [1, 3]]"
  "loadtxt fs_example ''w/wake.dat'' 0 = Inr [[0, 1], [1, 3]]"
  "loadtxt fs_example ''w/Results-WY_AT_XY.0001'' 11 = Inr [[0, 1], [1, 3]]"
  "loadtxt fs_example ''w/Results-WY_AT_XY.0002'' 11 = Inr [[0, 3], [1, 5]]"
  by (simp_all add: fs_example_def two_rows_def loadtxt_def Let_def eval_nat_numeral)

lemma fs_example_copies:
  "copy2 fs_example ''w/wake.txt'' ''t'' =
     Inr (fs_example\<lparr>files := (files fs_example)(''t/wake.txt'' \<mapsto> two_rows 2 [0, 1] [1, 3])\<rparr>)"
  "copy2 fs_example ''w/wake.dat'' ''u/v'' = Inl OSError"
  by (simp_all add: copy2_def fs_example_def basename_def)

lemma upper_y: "upper ''y'' = ''Y''"
  by (simp add: upper_def Let_def char_of_def bit_simps)

lemma prepared_simpar:
  "datasource (simpar (prepare_struct_for_load d mm sg code)) = code"
  "wakepath (simpar (prepare_struct_for_load d mm sg code)) = d"
  "targetdir (simpar (prepare_struct_for_load d mm sg code)) = d"
  "m (simpar (prepare_struct_for_load d mm sg code)) = mm"
  "sym (simpar (prepare_struct_for_load d mm sg code)) = 1"
  "whichaxis (simpar (prepare_struct_for_load d mm sg code)) = ''y''"
  by (simp_all add: prepare_struct_for_load_def GlobData_init_def Simpar_init_def)

lemma startswith_refl: "startswith d d"
  by (simp add: startswith_def)

lemma bcast2_error: "bcast2 f a b = Inl e \<Longrightarrow> e = ValueError"
  by (auto simp: bcast2_def split: if_splits)

lemma trapz_error: "trapz y x = Inl e \<Longrightarrow> e = ValueError"
  by (auto simp: trapz_def bindE_def split: sum.splits dest: bcast2_error)

lemma kfactor_error: "kfactor Z k ksq sg = Inl e \<Longrightarrow> e = ValueError"
  by (auto simp: kfactor_def bindE_def Let_def split: sum.splits
      dest: bcast2_error trapz_error)

lemma kwake_error: "kwake wake saxis sg = Inl e \<Longrightarrow> e = ValueError"
  by (auto simp: kwake_def bindE_def Let_def split: sum.splits dest: bcast2_error trapz_error)

lemma mapE_error: "mapE f xs = Inl e \<Longrightarrow> \<exists>x\<in>set xs. f x = Inl e"
  by (induction xs) (auto split: sum.splits)

lemma mapE_first_error: "f x = Inl e \<Longrightarrow> mapE f (x # xs) = Inl e"
  by simp

lemma fft_error: "fft a = Inl e \<Longrightarrow> e = ValueError"
  by (auto simp: fft_def Let_def split: if_splits)

lemma calc_impedance_error:
  "calc_impedance g = Inl e \<Longrightarrow> e = IndexError \<or> e = ValueError \<or> e = ZeroDivisionError"
  by (auto simp: calc_impedance_def Let_def bindE_def split: if_splits sum.splits
      dest: fft_error)

lemma calc_loss_factor_error:
  "calc_loss_factor g = Inl e \<Longrightarrow> e = ValueError \<or> e = ZeroDivisionError"
  by (auto simp: calc_loss_factor_def Let_def bindE_def split: if_splits sum.splits
      dest!: mapE_error kfactor_error kwake_error)

lemma calc_kick_factor_error: "calc_kick_factor g = Inl e \<Longrightarrow> e = ValueError"
  by (auto simp: calc_kick_factor_def Let_def bindE_def split: if_splits sum.splits
      dest!: mapE_error kfactor_error kwake_error)

lemma calc_impedance_empty:
  "s (results g) = [] \<Longrightarrow> calc_impedance g = Inl IndexError"
  "s (results g) \<noteq> [] \<Longrightarrow> W (results g) = [] \<Longrightarrow> calc_impedance g = Inl ValueError"
  by (simp_all add: calc_impedance_def Let_def bindE_def fft_def)

lemma kfactor_mismatch:
  assumes "length Z \<noteq> length ksq" "length Z \<noteq> 1" "length ksq \<noteq> 1"
  shows "kfactor Z k ksq sg = Inl ValueError"
  using assms by (simp add: kfactor_def Let_def bindE_def bcast2_def)

lemma linspace_100: "linspace a b 100 = hd (linspace a b 100) # tl (linspace a b 100)"
proof -
  have "linspace a b 100 \<noteq> []" using length_linspace [of a b 100] by auto
  then show ?thesis by simp
qed

lemma calc_loss_factor_mismatch:
  assumes "omega0 (ringpar g) \<noteq> 0"
    and "length (ReZlong (results g)) \<noteq> length (freq (results g))"
    and "length (ReZlong (results g)) \<noteq> 1" and "length (freq (results g)) \<noteq> 1"
  shows "calc_loss_factor g = Inl ValueError"
proof -
  let ?k = "map (\<lambda>f. (f * 2 * pi) / c_light) (freq (results g))"
  have "kfactor (ReZlong (results g)) ?k (map (\<lambda>x. x ^ 2) ?k) sg = Inl ValueError" for sg
    using assms by (intro kfactor_mismatch) simp_all
  then have "mapE (kfactor (ReZlong (results g)) ?k (map (\<lambda>x. x ^ 2) ?k))
      (linspace (bunlen (simpar g)) (sigmamax (ringpar g)) 100) = Inl ValueError"
    by (subst linspace_100) (simp only: mapE_first_error)
  then show ?thesis
    using assms(1) by (simp add: calc_loss_factor_def Let_def bindE_def)
qed

lemma calc_kick_factor_mismatch:
  assumes "length (ImZt (results g)) \<noteq> length (freq (results g))"
    and "length (ImZt (results g)) \<noteq> 1" and "length (freq (results g)) \<noteq> 1"
  shows "calc_kick_factor g = Inl ValueError"
proof -
  let ?k = "map (\<lambda>x. x / c_light) (map (\<lambda>f. f * 2 * pi) (freq (results g)))"
  have "kfactor (ImZt (results g)) ?k (map (\<lambda>x. x ^ 2) ?k) sg = Inl ValueError" for sg
    using assms by (intro kfactor_mismatch) simp_all
  then show ?thesis
    unfolding calc_kick_factor_def Let_def bindE_def by simp
qed

lemma factor_omega_empty: "factor_omega [] [] sg = 0"
  by (simp add: factor_omega_def trapezoid_def)

lemma klossZ_empty:
  assumes "calc_loss_factor g = Inr r" "freq (results g) = []" "ReZlong (results g) = []"
    "i < 100"
  shows "klossZ (results r) ! i = 0"
  using klossZ_nth [OF assms(1) _ assms(4)] assms(2,3) by (simp add: factor_omega_empty)

lemma GlobData_init_loss_returns: "\<exists>r. calc_loss_factor GlobData_init = Inr r"
  using calc_loss_factor_returns [of GlobData_init] omega0_init_nonzero
  by (simp add: GlobData_init_def Results_init_def)

section \<open>Loading: the GdfidL dipole wake\<close>

text \<open>
  Claim C7 fails on the code. For a GdfidL source in dipole mode with the symmetry flag
  set, well-formed offset-probe files (eleven header lines, then a table of at least two
  rows and two columns, of equal length) and the companion file present, \<open>load_wake\<close>
  never returns a wake: it raises \<open>NameError\<close> where it should parse the shift, or, when
  the files are copied to the target directory and one of the three copies fails, the
  \<open>OSError\<close> of that copy.
\<close>

theorem gdfidl_dipole_raises:
  assumes "startswith (datasource (simpar g)) ''GdfidL''" and "m (simpar g) = 1"
    and "sym (simpar g) \<noteq> 0"
    and "loadtxt fs (path_join [wakepath (simpar g),
            ''Results-W'' @ upper (whichaxis (simpar g)) @ ''_AT_XY.0001'']) 11 = Inr t1"
    and "loadtxt fs (path_join [wakepath (simpar g),
            ''Results-W'' @ upper (whichaxis (simpar g)) @ ''_AT_XY.0002'']) 11 = Inr t2"
    and "2 \<le> length t1" and "2 \<le> length (hd t1)" and "2 \<le> length (hd t2)"
    and "length t2 = length t1"
    and "files fs (path_join [wakepath (simpar g), ''Results-Wq_AT_XY.0001'']) = Some f"
  shows "load_wake fs g =
           Inl (if \<not> startswith (wakepath (simpar g)) (targetdir (simpar g)) \<and>
                   isl (copy_all fs
                     [path_join [wakepath (simpar g),
                        ''Results-W'' @ upper (whichaxis (simpar g)) @ ''_AT_XY.0001''],
                      path_join [wakepath (simpar g),
                        ''Results-W'' @ upper (whichaxis (simpar g)) @ ''_AT_XY.0002''],
                      path_join [wakepath (simpar g), ''Results-Wq_AT_XY.0001'']]
                     (targetdir (simpar g)))
                then OSError else NameError)"
  using assms by (rule load_wake_GdfidL_dipole)

theorem gdfidl_dipole_raises_witness:
  "loadtxt fs_example ''w/Results-WY_AT_XY.0001'' 11 = Inr [[0, 1], [1, 3]] \<and>
   loadtxt fs_example ''w/Results-WY_AT_XY.0002'' 11 = Inr [[0, 3], [1, 5]] \<and>
   files fs_example ''w/Results-Wq_AT_XY.0001'' \<noteq> None \<and>
   load_wake fs_example (prepare_struct_for_load ''w'' 1 (5 / 10 ^ 4) ''GdfidL'') = Inl NameError"
proof -
  obtain f where f: "files fs_example ''w/Results-Wq_AT_XY.0001'' = Some f"
    by (simp add: fs_example_def)
  show ?thesis
    using gdfidl_dipole_raises [of "prepare_struct_for_load ''w'' 1 (5 / 10 ^ 4) ''GdfidL''"
        fs_example "[[0, 1], [1, 3]]" "[[0, 3], [1, 5]]" f] f
    by (simp add: prepared_simpar fs_example_tables startswith_def upper_y)
qed

section \<open>Loading: the ACE3P displacement\<close>

text \<open>
  Claim C8 fails on the code. For an ACE3P source and a well-formed file (three header
  lines, then a table of at least two rows and two columns), \<open>load_wake\<close> never returns
  positions: it raises \<open>AttributeError\<close> at the displacement by five bunch lengths, or,
  when the file is copied to the target directory and the copy fails, the \<open>OSError\<close> of
  the copy.
\<close>

theorem ace3p_displacement_raises:
  assumes "startswith (datasource (simpar g)) ''ACE3P''"
    and "loadtxt fs (path_join [wakepath (simpar g), ''wakefield.out'']) 3 = Inr t"
    and "2 \<le> length t" and "2 \<le> length (hd t)"
  shows "load_wake fs g =
           Inl (if \<not> startswith (wakepath (simpar g)) (targetdir (simpar g)) \<and>
                   isl (copy2 fs (path_join [wakepath (simpar g), ''wakefield.out''])
                          (targetdir (simpar g)))
                then OSError else AttributeError)"
  using assms by (rule load_wake_ACE3P)

theorem ace3p_displacement_raises_witness:
  "loadtxt fs_example ''w/wakefield.out'' 3 = Inr [[0, 1], [1, 3]] \<and>
   load_wake fs_example (prepare_struct_for_load ''w'' 0 (5 / 10 ^ 4) ''ACE3P'') =
     Inl AttributeError"
  using ace3p_displacement_raises [of "prepare_struct_for_load ''w'' 0 (5 / 10 ^ 4) ''ACE3P''"
      fs_example "[[0, 1], [1, 3]]"]
  by (simp add: prepared_simpar fs_example_tables startswith_def)

section \<open>Loading: the sign of a longitudinal wake\<close>

text \<open>
  Claim C10. In longitudinal mode and on a well-formed file, \<open>load_wake\<close> returns the
  negated second column as the wake for CST (positions in millimetres) and for ECHO
  (positions in centimetres), with the file system unchanged when the wake directory
  starts with the target directory and with the file copied otherwise; a copy that
  fails raises its \<open>OSError\<close>. For ACE3P the same negation is computed, and then the
  displacement of the positions raises \<open>AttributeError\<close>.
\<close>

theorem longitudinal_negation_by_source:
  assumes "m (simpar g) = 0" and "2 \<le> length t" and "2 \<le> length (hd t)"
  shows "(startswith (datasource (simpar g)) ''CST'' \<and>
          loadtxt fs (path_join [wakepath (simpar g), ''wake.txt'']) 2 = Inr t \<longrightarrow>
            load_wake fs g =
              (if startswith (wakepath (simpar g)) (targetdir (simpar g)) then
                 Inr (fs, g\<lparr>results := (results g)
                   \<lparr>W := map (\<lambda>r. - (r ! 1)) t, s := map (\<lambda>r. r ! 0 / 1000) t\<rparr>\<rparr>)
               else
                 (case copy2 fs (path_join [wakepath (simpar g), ''wake.txt''])
                         (targetdir (simpar g)) of
                    Inl e \<Rightarrow> Inl e
                  | Inr fs1 \<Rightarrow> Inr (fs1, g\<lparr>results := (results g)
                      \<lparr>W := map (\<lambda>r. - (r ! 1)) t, s := map (\<lambda>r. r ! 0 / 1000) t\<rparr>\<rparr>)))) \<and>
         (startswith (datasource (simpar g)) ''ECHO'' \<and>
          loadtxt fs (path_join [wakepath (simpar g), ''wake.dat'']) 0 = Inr t \<longrightarrow>
            load_wake fs g =
              (if startswith (wakepath (simpar g)) (targetdir (simpar g)) then
                 Inr (fs, g\<lparr>results := (results g)
                   \<lparr>W := map (\<lambda>r. - (r ! 1)) t, s := map (\<lambda>r. r ! 0 / 100) t\<rparr>\<rparr>)
               else
                 (case copy2 fs (path_join [wakepath (simpar g), ''wake.dat''])
                         (targetdir (simpar g)) of
                    Inl e \<Rightarrow> Inl e
                  | Inr fs1 \<Rightarrow> Inr (fs1, g\<lparr>results := (results g)
                      \<lparr>W := map (\<lambda>r. - (r ! 1)) t, s := map (\<lambda>r. r ! 0 / 100) t\<rparr>\<rparr>)))) \<and>
         (startswith (datasource (simpar g)) ''ACE3P'' \<and>
          loadtxt fs (path_join [wakepath (simpar g), ''wakefield.out'']) 3 = Inr t \<longrightarrow>
            load_wake fs g =
              Inl (if \<not> startswith (wakepath (simpar g)) (targetdir (simpar g)) \<and>
                      isl (copy2 fs (path_join [wakepath (simpar g), ''wakefield.out''])
                             (targetdir (simpar g)))
                   then OSError else AttributeError))"
  using assms load_wake_CST [of g fs t] load_wake_ECHO [of g fs t] load_wake_ACE3P [of g fs t]
  by simp

theorem longitudinal_negation_by_source_witness:
  "load_wake fs_example (prepare_struct_for_load ''w'' 0 (5 / 10 ^ 4) ''CST'') =
     Inr (fs_example, (prepare_struct_for_load ''w'' 0 (5 / 10 ^ 4) ''CST'')
       \<lparr>results := (results (prepare_struct_for_load ''w'' 0 (5 / 10 ^ 4) ''CST''))
          \<lparr>W := [- 1, - 3], s := [0, 1 / 1000]\<rparr>\<rparr>) \<and>
   load_wake fs_example (prepare_struct_for_load ''w'' 0 (5 / 10 ^ 4) ''ECHO'') =
     Inr (fs_example, (prepare_struct_for_load ''w'' 0 (5 / 10 ^ 4) ''ECHO'')
       \<lparr>results := (results (prepare_struct_for_load ''w'' 0 (5 / 10 ^ 4) ''ECHO''))
          \<lparr>W := [- 1, - 3], s := [0, 1 / 100]\<rparr>\<rparr>) \<and>
   load_wake fs_example (prepare_struct_for_load ''w'' 0 (5 / 10 ^ 4) ''ACE3P'') =
     Inl AttributeError \<and>
   load_wake fs_example g_cst_copy =
     Inr (fs_example\<lparr>files := (files fs_example)(''t/wake.txt'' \<mapsto> two_rows 2 [0, 1] [1, 3])\<rparr>,
          g_cst_copy\<lparr>results := (results g_cst_copy)\<lparr>W := [- 1, - 3], s := [0, 1 / 1000]\<rparr>\<rparr>) \<and>
   load_wake fs_example g_echo_copy = Inl OSError"
proof -
  have t: "2 \<le> length [[0, 1], [1, 3::real]]" "2 \<le> length (hd [[0, 1], [1, 3::real]])"
    by simp_all
  have m0: "m (simpar (prepare_struct_for_load ''w'' 0 (5 / 10 ^ 4) code)) = 0" for code
    by (simp add: prepared_simpar)
  note inst = longitudinal_negation_by_source [OF m0 t, of _ fs_example]
  have a: "load_wake fs_example (prepare_struct_for_load ''w'' 0 (5 / 10 ^ 4) ''CST'') =
     Inr (fs_example, (prepare_struct_for_load ''w'' 0 (5 / 10 ^ 4) ''CST'')
       \<lparr>results := (results (prepare_struct_for_load ''w'' 0 (5 / 10 ^ 4) ''CST''))
          \<lparr>W := [- 1, - 3], s := [0, 1 / 1000]\<rparr>\<rparr>)"
    using inst [of "''CST''"] by (simp add: prepared_simpar fs_example_tables startswith_def)
  have b: "load_wake fs_example (prepare_struct_for_load ''w'' 0 (5 / 10 ^ 4) ''ECHO'') =
     Inr (fs_example, (prepare_struct_for_load ''w'' 0 (5 / 10 ^ 4) ''ECHO'')
       \<lparr>results := (results (prepare_struct_for_load ''w'' 0 (5 / 10 ^ 4) ''ECHO''))
          \<lparr>W := [- 1, - 3], s := [0, 1 / 100]\<rparr>\<rparr>)"
    using inst [of "''ECHO''"] by (simp add: prepared_simpar fs_example_tables startswith_def)
  have c: "load_wake fs_example (prepare_struct_for_load ''w'' 0 (5 / 10 ^ 4) ''ACE3P'') =
      Inl AttributeError"
    using inst [of "''ACE3P''"] by (simp add: prepared_simpar fs_example_tables startswith_def)
  have sp: "datasource (simpar g_cst_copy) = ''CST''" "wakepath (simpar g_cst_copy) = ''w''"
    "targetdir (simpar g_cst_copy) = ''t''" "m (simpar g_cst_copy) = 0"
    "datasource (simpar g_echo_copy) = ''ECHO''" "wakepath (simpar g_echo_copy) = ''w''"
    "targetdir (simpar g_echo_copy) = ''u/v''" "m (simpar g_echo_copy) = 0"
    by (simp_all add: g_cst_copy_def g_echo_copy_def prepared_simpar)
  have d: "load_wake fs_example g_cst_copy =
     Inr (fs_example\<lparr>files := (files fs_example)(''t/wake.txt'' \<mapsto> two_rows 2 [0, 1] [1, 3])\<rparr>,
          g_cst_copy\<lparr>results := (results g_cst_copy)\<lparr>W := [- 1, - 3], s := [0, 1 / 1000]\<rparr>\<rparr>)"
    using longitudinal_negation_by_source [OF sp(4) t, of fs_example]
    by (simp add: sp fs_example_tables fs_example_copies startswith_def)
  have e: "load_wake fs_example g_echo_copy = Inl OSError"
    using longitudinal_negation_by_source [OF sp(8) t, of fs_example]
    by (simp add: sp fs_example_tables fs_example_copies startswith_def)
  show ?thesis using a b c d e by blast
qed

section \<open>Empty and mismatched arrays\<close>

text \<open>
  Claim C9, as amended. No operation raises \<open>DataConsistencyError\<close>. \<open>calc_impedance\<close>
  raises \<open>IndexError\<close> on an empty position array and \<open>ValueError\<close> on an empty wake with
  positions, and returns whenever both are non-empty and the bunch length is not 0,
  whether or not their lengths agree. \<open>calc_loss_factor\<close> (with \<open>omega0 \<noteq> 0\<close>) and
  \<open>calc_kick_factor\<close> raise \<open>ValueError\<close> when the frequency and impedance arrays differ in
  length and neither has length 1 (numpy would broadcast that one); on empty frequency
  and impedance arrays, \<open>calc_loss_factor\<close> stores zeros as loss factors.
\<close>

theorem array_errors:
  shows "calc_impedance g \<noteq> Inl DataConsistencyError \<and>
         calc_loss_factor g \<noteq> Inl DataConsistencyError \<and>
         calc_kick_factor g \<noteq> Inl DataConsistencyError \<and>
         (s (results g) = [] \<longrightarrow> calc_impedance g = Inl IndexError) \<and>
         (s (results g) \<noteq> [] \<and> W (results g) = [] \<longrightarrow> calc_impedance g = Inl ValueError) \<and>
         (s (results g) \<noteq> [] \<and> W (results g) \<noteq> [] \<and> bunlen (simpar g) \<noteq> 0 \<longrightarrow>
            \<not> isl (calc_impedance g)) \<and>
         (omega0 (ringpar g) \<noteq> 0 \<and>
          length (ReZlong (results g)) \<noteq> length (freq (results g)) \<and>
          length (ReZlong (results g)) \<noteq> 1 \<and> length (freq (results g)) \<noteq> 1 \<longrightarrow>
            calc_loss_factor g = Inl ValueError) \<and>
         (length (ImZt (results g)) \<noteq> length (freq (results g)) \<and>
          length (ImZt (results g)) \<noteq> 1 \<and> length (freq (results g)) \<noteq> 1 \<longrightarrow>
            calc_kick_factor g = Inl ValueError) \<and>
         (freq (results g) = [] \<and> ReZlong (results g) = [] \<and> calc_loss_factor g = Inr r \<and>
          i < 100 \<longrightarrow> klossZ (results r) ! i = 0)"
proof -
  have "calc_impedance g \<noteq> Inl DataConsistencyError"
    using calc_impedance_error [of g DataConsistencyError] by auto
  moreover have "calc_loss_factor g \<noteq> Inl DataConsistencyError"
    using calc_loss_factor_error [of g DataConsistencyError] by auto
  moreover have "calc_kick_factor g \<noteq> Inl DataConsistencyError"
    using calc_kick_factor_error [of g DataConsistencyError] by auto
  moreover have "\<not> isl (calc_impedance g)"
    if "s (results g) \<noteq> []" "W (results g) \<noteq> []" "bunlen (simpar g) \<noteq> 0"
    using calc_impedance_returns [OF that] by auto
  ultimately show ?thesis
    using calc_impedance_empty [of g] calc_loss_factor_mismatch [of g]
      calc_kick_factor_mismatch [of g] klossZ_empty [of g r i]
    by blast
qed

theorem array_errors_witness:
  "calc_impedance GlobData_init = Inl IndexError \<and>
   calc_impedance g_no_wake = Inl ValueError \<and>
   \<not> isl (calc_impedance g_mismatch) \<and>
   calc_loss_factor g_mismatch = Inl ValueError \<and>
   calc_kick_factor g_mismatch = Inl ValueError \<and>
   \<not> isl (calc_loss_factor GlobData_init) \<and>
   klossZ (results (projr (calc_loss_factor GlobData_init))) ! 0 = 0"
proof -
  obtain r where r: "calc_loss_factor GlobData_init = Inr r"
    using GlobData_init_loss_returns by blast
  have a: "calc_impedance GlobData_init = Inl IndexError"
    and z: "klossZ (results r) ! 0 = 0"
    using array_errors [of GlobData_init r 0] r
    by (simp_all add: GlobData_init_def Results_init_def)
  have b: "calc_impedance g_no_wake = Inl ValueError"
    using array_errors [of g_no_wake]
    by (simp add: g_no_wake_def GlobData_init_def Results_init_def)
  have c: "\<not> isl (calc_impedance g_mismatch)" "calc_loss_factor g_mismatch = Inl ValueError"
    "calc_kick_factor g_mismatch = Inl ValueError"
    using array_errors [of g_mismatch] omega0_init_nonzero
    by (simp_all add: g_mismatch_def GlobData_init_def Results_init_def Simpar_init_def)
  show ?thesis using a b c z r by simp
qed

text \<open>
  On empty arrays \<open>calc_impedance\<close> raises \<open>IndexError\<close>, and on a wake of three samples
  over two positions it returns a result.
\<close>

theorem array_errors_counterexample:
  "s (results GlobData_init) = [] \<and> W (results GlobData_init) = [] \<and>
   calc_impedance GlobData_init = Inl IndexError \<and>
   length (W (results g_mismatch)) \<noteq> length (s (results g_mismatch)) \<and>
   \<not> isl (calc_impedance g_mismatch)"
proof -
  have "calc_impedance GlobData_init = Inl IndexError"
    by (rule calc_impedance_empty) (simp add: GlobData_init_def Results_init_def)
  moreover have "\<exists>r. calc_impedance g_mismatch = Inr r"
    by (rule calc_impedance_returns)
       (simp_all add: g_mismatch_def GlobData_init_def Results_init_def Simpar_init_def)
  ultimately show ?thesis
    by (auto simp: GlobData_init_def Results_init_def g_mismatch_def)
qed

section \<open>The window\<close>

text \<open>
  Claim C1, as amended. For every wake of length \<open>N\<close>, the window multiplied into the wake
  before the transform has \<open>N\<close> values, the samples \<open>N-1, \<dots>, 2N-2\<close> of a length-\<open>2N\<close>
  Hanning window, that is its decreasing half: the values are non-increasing from the
  first sample to the last, so the onset of the wake gets the largest weight and the tail
  is tapered.
\<close>

theorem window_decreasing_half:
  "length (window N) = N \<and>
   (\<forall>i<N. window N ! i = hanning (2 * N) ! (N - 1 + i)) \<and>
   (\<forall>i j. i \<le> j \<and> j < N \<longrightarrow> window N ! j \<le> window N ! i)"
proof -
  have "window N ! i = hanning (2 * N) ! (N - 1 + i)" if "i < N" for i
  proof -
    have "N - 1 + i < 2 * N - 1" using that by simp
    then show ?thesis by (simp add: window_def length_hanning nth_butlast)
  qed
  then show ?thesis using window_decreasing length_window by blast
qed

theorem window_decreasing_half_witness:
  "length (window 3) = 3 \<and> window 3 ! 2 \<le> window 3 ! 0"
proof -
  have len: "length (window 3) = 3"
    and mono: "\<forall>i j. i \<le> j \<and> j < 3 \<longrightarrow> window 3 ! j \<le> window 3 ! i"
    using window_decreasing_half [of 3] by blast+
  from mono have "(0::nat) \<le> 2 \<and> (2::nat) < 3 \<longrightarrow> window 3 ! 2 \<le> window 3 ! 0"
    by blast
  then show ?thesis using len by simp
qed

text \<open>
  The window is not non-decreasing: for \<open>N = 3\<close> it is
  \<open>[0.905, 0.905, 0.345]\<close> to three digits.
\<close>

theorem window_nondecreasing_counterexample: "window 3 ! 2 < window 3 ! 1"
  by (rule window3_drop)

section \<open>The cutoff\<close>

text \<open>
  Claim C2. Every frequency retained by \<open>calc_impedance\<close> satisfies
  \<open>\<bar>\<omega>\<bar> \<le> cutoff / \<sigma>\<^sub>t\<close> with \<open>\<omega> = 2\<pi>\<cdot>freq\<close> and \<open>\<sigma>\<^sub>t = bunlen / c\<close>, and the impedance
  arrays (\<open>ReZlong\<close>, \<open>ImZlong\<close> for \<open>m = 0\<close>; \<open>ReZt\<close>, \<open>ImZt\<close> for \<open>m > 0\<close>) have one
  entry per retained frequency.
\<close>

theorem cutoff_invariant:
  assumes "calc_impedance g = Inr r" and "0 \<le> m (simpar g)"
  shows "(\<forall>f\<in>set (freq (results r)).
            \<bar>2 * pi * f\<bar> \<le> cutoff (simpar g) / (bunlen (simpar g) / c_light)) \<and>
         (m (simpar g) = 0 \<longrightarrow> length (ReZlong (results r)) = length (freq (results r)) \<and>
            length (ImZlong (results r)) = length (freq (results r))) \<and>
         (0 < m (simpar g) \<longrightarrow> length (ReZt (results r)) = length (freq (results r)) \<and>
            length (ImZt (results r)) = length (freq (results r)))"
proof -
  have "\<bar>2 * pi * f\<bar> \<le> cutoff (simpar g) / (bunlen (simpar g) / c_light)"
    if "f \<in> set (freq (results r))" for f
    using that unfolding calc_impedance_freq [OF assms] retained_def
    by (simp split: if_splits)
  then show ?thesis using calc_impedance_lengths [OF assms(1)] by blast
qed

theorem cutoff_invariant_witness:
  "\<not> isl (calc_impedance g_imp) \<and>
   freq (results (projr (calc_impedance g_imp))) = [- (5 * 10 ^ 9), 0] \<and>
   \<bar>2 * pi * - (5 * 10 ^ 9)\<bar> \<le> 2 / (5 / 10 ^ 4 / c_light) \<and>
   length (ReZlong (results (projr (calc_impedance g_imp)))) = 2"
proof -
  obtain r where r: "calc_impedance g_imp = Inr r" using g_imp_returns by blast
  have m0: "0 \<le> m (simpar g_imp)" by (simp add: m_g_imp)
  have fr: "freq (results r) = [- (5 * 10 ^ 9), 0]"
    using calc_impedance_freq [OF r m0] retained_g_imp by simp
  have par: "cutoff (simpar g_imp) = 2" "bunlen (simpar g_imp) = 5 / 10 ^ 4"
    by (simp_all add: g_imp_def GlobData_init_def Simpar_init_def)
  from cutoff_invariant [OF r m0] show ?thesis
    unfolding r sum.sel fr par m_g_imp by simp
qed

section \<open>The arrays over the harmonic number\<close>

text \<open>
  Claim C3, as amended. For \<open>m = 0\<close>, \<open>naxis = freq / f0\<close> and \<open>ImZoN = ImZlong / naxis\<close>
  are computed exactly over the retained frequencies with \<open>\<bar>\<omega>\<bar> < 20e9\<close> rad/s (the code
  compares \<open>2\<pi>\<cdot>\<bar>freq\<bar>\<close> with \<open>20e9\<close>) and \<open>freq \<noteq> 0\<close>, in their order, and over no
  others.
\<close>

theorem zn_arrays:
  assumes "calc_impedance g = Inr r" and "m (simpar g) = 0"
  shows "naxis (results r) =
           naxis_over (20 * 10 ^ 9) (omega0 (ringpar g) / (2 * pi)) (freq (results r)) \<and>
         ImZoN (results r) =
           ImZoN_over (20 * 10 ^ 9) (omega0 (ringpar g) / (2 * pi)) (freq (results r))
             (ImZlong (results r))"
  using calc_impedance_naxis [OF assms] by blast

theorem zn_arrays_witness:
  "\<not> isl (calc_impedance g_imp_low) \<and>
   naxis (results (projr (calc_impedance g_imp_low))) =
     [- (5 * 10 ^ 8) / (omega0 Ringpar_init / (2 * pi))] \<and>
   length (ImZoN (results (projr (calc_impedance g_imp_low)))) = 1"
proof -
  obtain r where r: "calc_impedance g_imp_low = Inr r" using g_imp_low_returns by blast
  have m0: "0 \<le> m (simpar g_imp_low)" by (simp add: m_g_imp)
  have fr: "freq (results r) = [- (5 * 10 ^ 8), 0]"
    using calc_impedance_freq [OF r m0] retained_g_imp_low by simp
  have len: "length (ImZlong (results r)) = 2"
    using calc_impedance_lengths [OF r] fr by (simp add: m_g_imp)
  then obtain a b where ab: "ImZlong (results r) = [a, b]"
    by (auto simp: length_Suc_conv numeral_2_eq_2)
  have rp: "omega0 (ringpar g_imp_low) = omega0 Ringpar_init"
    by (simp add: g_imp_low_def GlobData_init_def)
  from zn_arrays [OF r m_g_imp(2)] show ?thesis
    unfolding r sum.sel fr rp ab naxis_over_low ImZoN_over_low by simp
qed

text \<open>
  With the bound \<open>2\<pi> \<cdot> 20 GHz\<close> of the claim, the bin at \<open>-5 GHz\<close> would be part of
  \<open>naxis\<close>; the code leaves it out.
\<close>

theorem zn_claimed_counterexample:
  "\<not> isl (calc_impedance g_imp) \<and>
   naxis (results (projr (calc_impedance g_imp))) \<noteq>
     naxis_over (2 * pi * (20 * 10 ^ 9)) (omega0 (ringpar g_imp) / (2 * pi))
       (freq (results (projr (calc_impedance g_imp))))"
proof -
  obtain r where r: "calc_impedance g_imp = Inr r" using g_imp_returns by blast
  have m0: "0 \<le> m (simpar g_imp)" by (simp add: m_g_imp)
  have fr: "freq (results r) = [- (5 * 10 ^ 9), 0]"
    using calc_impedance_freq [OF r m0] retained_g_imp by simp
  have nx: "naxis (results r) = []"
    unfolding calc_impedance_naxis(1) [OF r m_g_imp(1)] fr naxis_over_high ..
  show ?thesis unfolding r sum.sel fr nx naxis_over_high_claimed by simp
qed

section \<open>The bunch-length scan\<close>

text \<open>
  Claim C5. When \<open>sigmamax > bunlen\<close>, the scan array \<open>sigmak\<close> stored by
  \<open>calc_loss_factor\<close> and by \<open>calc_kick_factor\<close> has exactly 100 elements, is strictly
  increasing, starts at \<open>bunlen\<close> and ends at \<open>sigmamax\<close> (in real arithmetic).
\<close>

theorem sigmak_scan:
  assumes "bunlen (simpar g) < sigmamax (ringpar g)"
    and "calc_loss_factor g = Inr r \<or> calc_kick_factor g = Inr r"
  shows "length (sigmak (results r)) = 100 \<and> sorted_wrt (<) (sigmak (results r)) \<and>
         hd (sigmak (results r)) = bunlen (simpar g) \<and>
         last (sigmak (results r)) = sigmamax (ringpar g)"
proof -
  have "sigmak (results r) = linspace (bunlen (simpar g)) (sigmamax (ringpar g)) 100"
    using assms(2) calc_loss_factor_sigmak calc_kick_factor_sigmak by blast
  then show ?thesis
    using assms(1) by (simp add: length_linspace linspace_strict hd_linspace last_linspace)
qed

theorem sigmak_scan_witness:
  "\<not> isl (calc_loss_factor g_loss) \<and>
   length (sigmak (results (projr (calc_loss_factor g_loss)))) = 100 \<and>
   sorted_wrt (<) (sigmak (results (projr (calc_loss_factor g_loss)))) \<and>
   hd (sigmak (results (projr (calc_loss_factor g_loss)))) = 1 / 10 ^ 3 \<and>
   last (sigmak (results (projr (calc_loss_factor g_loss)))) = 15 / 10 ^ 3 \<and>
   \<not> isl (calc_kick_factor g_kick) \<and>
   length (sigmak (results (projr (calc_kick_factor g_kick)))) = 100 \<and>
   sorted_wrt (<) (sigmak (results (projr (calc_kick_factor g_kick)))) \<and>
   hd (sigmak (results (projr (calc_kick_factor g_kick)))) = 1 / 10 ^ 3 \<and>
   last (sigmak (results (projr (calc_kick_factor g_kick)))) = 15 / 10 ^ 3"
proof -
  obtain r where r: "calc_loss_factor g_loss = Inr r"
    using g_loss_returns by blast
  obtain r' where r': "calc_kick_factor g_kick = Inr r'"
    using g_kick_returns by blast
  have l: "bunlen (simpar g_loss) < sigmamax (ringpar g_loss)"
    by (simp add: g_loss_def GlobData_init_def Simpar_init_def Ringpar_init_def)
  have k: "bunlen (simpar g_kick) < sigmamax (ringpar g_kick)"
    by (simp add: g_kick_def GlobData_init_def Simpar_init_def Ringpar_init_def)
  have a: "length (sigmak (results r)) = 100 \<and> sorted_wrt (<) (sigmak (results r)) \<and>
      hd (sigmak (results r)) = 1 / 10 ^ 3 \<and> last (sigmak (results r)) = 15 / 10 ^ 3"
    using sigmak_scan [OF l, of r] r
    by (simp add: g_loss_def GlobData_init_def Simpar_init_def Ringpar_init_def)
  have b: "length (sigmak (results r')) = 100 \<and> sorted_wrt (<) (sigmak (results r')) \<and>
      hd (sigmak (results r')) = 1 / 10 ^ 3 \<and> last (sigmak (results r')) = 15 / 10 ^ 3"
    using sigmak_scan [OF k, of r'] r'
    by (simp add: g_kick_def GlobData_init_def Simpar_init_def Ringpar_init_def)
  show ?thesis unfolding r r' sum.sel using a b by simp
qed

section \<open>The frequency-domain factor\<close>

text \<open>
  Claim C4, as amended. For every index \<open>i\<close> of the 100-point scan, the factor stored by
  \<open>calc_loss_factor\<close> (and by \<open>calc_kick_factor\<close>, for \<open>ImZt\<close>) is \<open>(1 / 2\<pi>) \<cdot> 1e-12\<close>
  times the trapezoidal integral over \<open>\<omega> = 2\<pi>\<cdot>freq\<close> of \<open>Z(\<omega>) \<cdot> exp(-\<omega>\<^sup>2\<sigma>\<^sub>i\<^sup>2 / c\<^sup>2)\<close>:
  the code integrates over the wavenumber \<open>k = \<omega> / c\<close>, which turns the prefactor
  \<open>c / 2\<pi>\<close> into \<open>1 / 2\<pi>\<close> and the exponent \<open>\<omega>\<^sup>2\<sigma>\<^sup>2\<close> into \<open>k\<^sup>2\<sigma>\<^sup>2\<close>.
\<close>

theorem factor_frequency_domain:
  assumes "i < 100"
  shows "(calc_loss_factor g = Inr r \<and> length (ReZlong (results g)) = length (freq (results g))
            \<longrightarrow> klossZ (results r) ! i =
                factor_omega (freq (results g)) (ReZlong (results g)) (sigmak (results r) ! i)) \<and>
         (calc_kick_factor g' = Inr r' \<and> length (ImZt (results g')) = length (freq (results g'))
            \<longrightarrow> kickZ (results r') ! i =
                factor_omega (freq (results g')) (ImZt (results g')) (sigmak (results r') ! i))"
  using assms klossZ_nth [of g r i] kickZ_nth [of g' r' i] by blast

theorem factor_frequency_domain_witness:
  "\<not> isl (calc_loss_factor g_loss) \<and> \<not> isl (calc_kick_factor g_kick) \<and>
   klossZ (results (projr (calc_loss_factor g_loss))) ! 0 = 1 / 10 ^ 12 \<and>
   kickZ (results (projr (calc_kick_factor g_kick))) ! 0 = 1 / 10 ^ 12"
proof -
  obtain r where r: "calc_loss_factor g_loss = Inr r" using g_loss_returns by blast
  obtain r' where r': "calc_kick_factor g_kick = Inr r'" using g_kick_returns by blast
  have "(0::nat) < 100" by simp
  from factor_frequency_domain [OF this, of g_loss r g_kick r'] r r' show ?thesis
    by (simp add: factor_omega_example g_loss_def g_kick_def GlobData_init_def Results_init_def)
qed

text \<open>
  The factor as claim C4 words it differs: on a spectrum that is 1 at zero frequency and 0
  at \<open>\<plusminus>1\<close> Hz the code stores \<open>1e-12\<close>, the claimed formula gives \<open>c \<cdot> 1e-12\<close>.
\<close>

theorem factor_claimed_counterexample:
  "\<not> isl (calc_loss_factor g_loss) \<and>
   klossZ (results (projr (calc_loss_factor g_loss))) ! 0 \<noteq>
     factor_claimed (freq (results g_loss)) (ReZlong (results g_loss))
       (sigmak (results (projr (calc_loss_factor g_loss))) ! 0)"
proof -
  obtain r where r: "calc_loss_factor g_loss = Inr r" using g_loss_returns by blast
  have kl: "klossZ (results r) ! 0 = 1 / 10 ^ 12"
    using klossZ_nth [OF r, of 0]
    by (simp add: factor_omega_example g_loss_def GlobData_init_def Results_init_def)
  have fc: "factor_claimed (freq (results g_loss)) (ReZlong (results g_loss)) sg = c_light / 10 ^ 12"
    for sg
    by (simp add: factor_claimed_example g_loss_def GlobData_init_def Results_init_def)
  have ne: "(1::real) / 10 ^ 12 \<noteq> c_light / 10 ^ 12"
    by (simp add: c_light_def)
  show ?thesis unfolding r sum.sel kl fc using ne by simp
qed

section \<open>The power-loss vector\<close>

text \<open>
  Claim C6, as amended. \<open>Plossvec\<close> has exactly 6 entries; entry \<open>i\<close> is the
  frequency-domain factor at the \<open>i\<close>-th literal bunch length, times
  \<open>I\<^sub>i\<^sup>2 \<cdot> T0 \<cdot> 1e12 / h\<close> with the \<open>i\<close>-th literal current and \<open>T0 = 2\<pi> / omega0\<close>. The
  factor \<open>1e12\<close> converts the loss factor from V/pC to V/C.
\<close>

theorem Plossvec_scenarios:
  assumes "calc_loss_factor g = Inr r"
    and "length (ReZlong (results g)) = length (freq (results g))"
  shows "length (Plossvec (results r)) = 6 \<and>
         (\<forall>i<6. Plossvec (results r) ! i =
            factor_omega (freq (results g)) (ReZlong (results g))
              ([265 / 10 ^ 5, 53 / 10 ^ 4, 265 / 10 ^ 5, 4 / 10 ^ 3, 10 / 10 ^ 3, 10 / 10 ^ 3] ! i) *
            ([500 / 10 ^ 3, 500 / 10 ^ 3, 10 / 10 ^ 3, 110 / 10 ^ 3, 110 / 10 ^ 3, 500 / 10 ^ 3] ! i) ^ 2 *
            (2 * pi / omega0 (ringpar g)) * 10 ^ 12 / real_of_int (h (ringpar g)))"
proof -
  have sv: "sigvec = [265 / 10 ^ 5, 53 / 10 ^ 4, 265 / 10 ^ 5, 4 / 10 ^ 3, 10 / 10 ^ 3, 10 / 10 ^ 3]"
    by (simp add: sigvec_def)
  have iv: "Ivec = [500 / 10 ^ 3, 500 / 10 ^ 3, 10 / 10 ^ 3, 110 / 10 ^ 3, 110 / 10 ^ 3, 500 / 10 ^ 3]"
    by (simp add: Ivec_def)
  show ?thesis
    using Plossvec_nth [OF assms] unfolding sv iv by blast
qed

theorem Plossvec_scenarios_witness:
  "\<not> isl (calc_loss_factor g_loss) \<and>
   length (Plossvec (results (projr (calc_loss_factor g_loss)))) = 6 \<and>
   Plossvec (results (projr (calc_loss_factor g_loss))) ! 0 =
     (1 / 10 ^ 12) * (500 / 10 ^ 3) ^ 2 * (2 * pi / omega0 Ringpar_init) * 10 ^ 12 / 864"
proof -
  obtain r where r: "calc_loss_factor g_loss = Inr r" using g_loss_returns by blast
  have "length (ReZlong (results g_loss)) = length (freq (results g_loss))"
    by (simp add: g_loss_def GlobData_init_def Results_init_def)
  from Plossvec_scenarios [OF r this] r show ?thesis
    by (simp add: factor_omega_example g_loss_def GlobData_init_def Results_init_def
        Ringpar_init_def)
qed

text \<open>
  Without the factor \<open>1e12\<close> the first entry is wrong, whichever of the two formulas for
  the frequency-domain factor is used.
\<close>

theorem Plossvec_claimed_counterexample:
  "\<not> isl (calc_loss_factor g_loss) \<and>
   Plossvec (results (projr (calc_loss_factor g_loss))) ! 0 \<noteq>
     factor_omega (freq (results g_loss)) (ReZlong (results g_loss)) (265 / 10 ^ 5) *
       (500 / 10 ^ 3) ^ 2 * (2 * pi / omega0 (ringpar g_loss)) / real_of_int (h (ringpar g_loss)) \<and>
   Plossvec (results (projr (calc_loss_factor g_loss))) ! 0 \<noteq>
     factor_claimed (freq (results g_loss)) (ReZlong (results g_loss)) (265 / 10 ^ 5) *
       (500 / 10 ^ 3) ^ 2 * (2 * pi / omega0 (ringpar g_loss)) / real_of_int (h (ringpar g_loss))"
proof -
  obtain r where r: "calc_loss_factor g_loss = Inr r" using g_loss_returns by blast
  have len: "length (ReZlong (results g_loss)) = length (freq (results g_loss))"
    by (simp add: g_loss_def GlobData_init_def Results_init_def)
  have fo: "factor_omega (freq (results g_loss)) (ReZlong (results g_loss)) sg = 1 / 10 ^ 12" for sg
    by (simp add: factor_omega_example g_loss_def GlobData_init_def Results_init_def)
  have fc: "factor_claimed (freq (results g_loss)) (ReZlong (results g_loss)) sg = c_light / 10 ^ 12"
    for sg
    by (simp add: factor_claimed_example g_loss_def GlobData_init_def Results_init_def)
  have T0: "2 * pi / omega0 (ringpar g_loss) = 518396 / 1000 / 299792458"
    by (simp add: g_loss_def GlobData_init_def Ringpar_init_def)
  have hn: "real_of_int (h (ringpar g_loss)) = 864"
    by (simp add: g_loss_def GlobData_init_def Ringpar_init_def)
  have pv: "Plossvec (results r) ! 0 =
      (1 / 10 ^ 12) * (500 / 10 ^ 3) ^ 2 * (518396 / 1000 / 299792458) * 10 ^ 12 / 864"
    using Plossvec_nth(2) [OF r len, of 0] unfolding fo T0 hn
    by (simp add: sigvec_def Ivec_def)
  show ?thesis unfolding r sum.sel pv fo fc T0 hn by (simp add: c_light_def)
qed

end
